theory Spec2Isabelle
  imports Complex_Main "HOL-Library.Sublist"
begin

section \<open>Strings of the host language\<close>

text \<open>
  A JavaScript string is a sequence of UTF-16 code units. The model uses \<^typ>\<open>string\<close>, each
  \<^typ>\<open>char\<close> standing for one code unit below \<open>0x100\<close>; the white space and line
  terminators of \<open>String.prototype.trim\<close> in that range are TAB, LF, VT, FF, CR, SP and NBSP
  (the further ones, U+1680, U+2000 to U+200A, U+2028, U+2029, U+202F, U+205F, U+3000 and
  U+FEFF, lie outside the range).
\<close>

definition isWhiteSpace :: "char \<Rightarrow> bool" where
  "isWhiteSpace c =
     (c = CHR 0x09 \<or> c = CHR 0x0A \<or> c = CHR 0x0B \<or> c = CHR 0x0C \<or> c = CHR 0x0D
      \<or> c = CHR 0x20 \<or> c = CHR 0xA0)"

definition trim :: "string \<Rightarrow> string" where
  "trim s = rev (dropWhile isWhiteSpace (rev (dropWhile isWhiteSpace s)))"

definition startsWith :: "string \<Rightarrow> string \<Rightarrow> bool" where
  "startsWith s p = (take (length p) s = p)"

text \<open>
  \<open>text.replace(/```json\n?|\n?```/g, "")\<close>: the scan goes left to right; at each position the
  first alternative is tried before the second, \<open>\n?\<close> is greedy, a match is deleted and the
  scan goes on behind it, and a position with no match keeps its character.
\<close>

fun stripFences :: "string \<Rightarrow> string" where
  "stripFences [] = []"
| "stripFences (c # cs) =
     (if startsWith (c # cs) ''```json\<newline>'' then stripFences (drop 7 cs)
      else if startsWith (c # cs) ''```json'' then stripFences (drop 6 cs)
      else if startsWith (c # cs) ''\<newline>```'' then stripFences (drop 3 cs)
      else if startsWith (c # cs) ''```'' then stripFences (drop 2 cs)
      else c # stripFences cs)"

text \<open>Decimal rendering of an integer, as a template literal renders an integral number
  (of magnitude below \<open>10^21\<close>, beyond which JavaScript switches to exponent notation).\<close>

definition digitChar :: "nat \<Rightarrow> char" where
  "digitChar d = ''0123456789'' ! d"

fun digits :: "nat \<Rightarrow> string" where
  "digits n = (if n < 10 then [digitChar n] else digits (n div 10) @ [digitChar (n mod 10)])"

declare digits.simps [simp del]

definition numberToString :: "int \<Rightarrow> string" where
  "numberToString i = (if i < 0 then CHR ''-'' # digits (nat (- i)) else digits (nat i))"

section \<open>Values at run time\<close>

text \<open>
  The types of \<open>types.ts\<close> are erased at run time, and \<open>sendMessage\<close> casts what \<open>JSON.parse\<close>
  returns to \<open>GameTurnData\<close> without a check. So a turn held by the component is any JSON
  value, or \<open>undefined\<close> where a property is absent. An object is the list of its own
  properties, read at the first entry of a name. A number is given by its canonical decimal
  text, the one \<open>Number.prototype.toString\<close> returns (\<open>0\<close> for both zeros): two numbers are
  equal exactly when their texts are.
\<close>

datatype JSValue =
    JUndefined
  | JNull
  | JBool bool
  | JNumber string
  | JString string
  | JArray "JSValue list"
  | JObject "(string \<times> JSValue) list"

text \<open>What \<open>!v\<close>, \<open>v && \<dots>\<close> and \<open>v ? \<dots> : \<dots>\<close> test.\<close>

fun truthy :: "JSValue \<Rightarrow> bool" where
  "truthy JUndefined = False"
| "truthy JNull = False"
| "truthy (JBool b) = b"
| "truthy (JNumber n) = (n \<noteq> ''0'' \<and> n \<noteq> ''NaN'')"
| "truthy (JString s) = (s \<noteq> [])"
| "truthy (JArray xs) = True"
| "truthy (JObject ps) = True"

text \<open>
  \<open>v.name\<close> for the names the controller reads, \<open>spanishConcept\<close>, \<open>correctAnswer\<close> and
  \<open>explanation\<close>, on a value that passed the test above: an own property of an object, and
  \<open>undefined\<close> otherwise (no prototype has a property of these names).
\<close>

fun property :: "JSValue \<Rightarrow> string \<Rightarrow> JSValue" where
  "property (JObject ps) name = (case map_of ps name of Some x \<Rightarrow> x | None \<Rightarrow> JUndefined)"
| "property v name = JUndefined"

text \<open>
  \<open>a === b\<close>. Primitive values are compared by value. Two objects or arrays are equal only if
  they are the same object; the option handed to \<open>handleOptionSelect\<close> and the \<open>correctAnswer\<close>
  of the challenge are different nodes of the parsed reply, hence never the same object.
\<close>

fun strictEquals :: "JSValue \<Rightarrow> JSValue \<Rightarrow> bool" where
  "strictEquals (JArray xs) b = False"
| "strictEquals (JObject ps) b = False"
| "strictEquals a b = (a = b \<and> a \<noteq> JNumber ''NaN'')"

text \<open>
  \<open>{...v, spanishConcept: x}\<close>: the own enumerable properties of \<open>v\<close> (the elements of an array
  and the code units of a string under their indices, none for the other primitive values),
  with \<open>spanishConcept\<close> set to \<open>x\<close> in its place, or added at the end.
\<close>

fun ownProperties :: "JSValue \<Rightarrow> (string \<times> JSValue) list" where
  "ownProperties (JObject ps) = ps"
| "ownProperties (JArray xs) = zip (map digits [0..<length xs]) xs"
| "ownProperties (JString s) = zip (map digits [0..<length s]) (map (\<lambda>c. JString [c]) s)"
| "ownProperties v = []"

primrec setProperty :: "string \<Rightarrow> JSValue \<Rightarrow> (string \<times> JSValue) list \<Rightarrow> (string \<times> JSValue) list" where
  "setProperty name x [] = [(name, x)]"
| "setProperty name x (p # ps) =
     (if fst p = name then (name, x) # ps else p # setProperty name x ps)"

definition spreadWithConcept :: "JSValue \<Rightarrow> JSValue \<Rightarrow> JSValue" where
  "spreadWithConcept v x = JObject (setProperty ''spanishConcept'' x (ownProperties v))"

datatype Error = Error string

text \<open>
  The two built-in operations of the language the code relies on: \<open>JSON.parse\<close> (\<open>None\<close> is
  the thrown \<open>SyntaxError\<close>) and the conversion to a string that a template literal applies
  to a value that is not a string (\<open>Inl\<close> is the thrown \<open>TypeError\<close>).
\<close>

record Host =
  JSON_parse :: "string \<Rightarrow> JSValue option"
  ToString :: "JSValue \<Rightarrow> Error + string"

definition interpolate :: "Host \<Rightarrow> JSValue \<Rightarrow> Error + string" where
  "interpolate host v = (case v of JString s \<Rightarrow> Inr s | _ \<Rightarrow> ToString host v)"

section \<open>Data model (types.ts)\<close>

datatype Sender = USER | MODEL | SYSTEM

record MapSource =
  uri :: string
  title :: string

record GroundingChunk =
  maps :: "MapSource option"
  web :: "MapSource option"

text \<open>The interface a turn is declared to have, and the object with these properties.\<close>

record GameTurnData =
  locationName :: string
  locationType :: string
  englishQuestion :: string
  spanishConcept :: string
  question :: string
  options :: "string list"
  correctAnswer :: string
  explanation :: string
  isGameOver :: "bool option"

definition asValue :: "GameTurnData \<Rightarrow> JSValue" where
  "asValue d =
     JObject ([(''locationName'', JString (locationName d)),
               (''locationType'', JString (locationType d)),
               (''englishQuestion'', JString (englishQuestion d)),
               (''spanishConcept'', JString (spanishConcept d)),
               (''question'', JString (question d)),
               (''options'', JArray (map JString (options d))),
               (''correctAnswer'', JString (correctAnswer d)),
               (''explanation'', JString (explanation d))]
              @ (case isGameOver d of None \<Rightarrow> [] | Some b \<Rightarrow> [(''isGameOver'', JBool b)]))"

datatype TurnStep = concept | grammar

text \<open>
  A chat message; \<open>id\<close> (a fresh UUID) and \<open>timestamp\<close> (the wall clock) are left out, the
  field \<open>text\<close> is \<open>msgText\<close>. \<open>text\<close> and \<open>structuredContent\<close> hold what they were given at run
  time, \<open>JUndefined\<close> when the message has no such field.
\<close>

record ChatMessage =
  role :: Sender
  msgText :: JSValue
  structuredContent :: JSValue
  groundingChunks :: "GroundingChunk list option"
  isCorrect :: "bool option"
  step :: "TurnStep option"

datatype Status = intro | playing | loading | finished | error

text \<open>\<open>activeChallenge\<close> is \<open>JNull\<close> when there is none.\<close>

record GameState =
  status :: Status
  location :: "(real \<times> real) option"
  currentTurn :: int
  maxTurns :: int
  activeChallenge :: JSValue
  turnStep :: TurnStep

section \<open>The content service (services/gemini)\<close>

text \<open>What \<open>chatSession.sendMessage\<close> resolves to: \<open>result.text\<close> and the grounding chunks of
  the first candidate, either of which may be undefined.\<close>

record ChatResult =
  resultText :: "string option"
  resultChunks :: "GroundingChunk list option"

definition errorTurnData :: GameTurnData where
  "errorTurnData =
     \<lparr> locationName = ''Connection Error'',
       locationType = ''park'',
       englishQuestion = ''Something went wrong. Can you reload?'',
       spanishConcept = ''Error'',
       question = ''Try refreshing the page.'',
       options = [''Reload''],
       correctAnswer = ''Reload'',
       explanation = ''JSON Parse Error'',
       isGameOver = Some False \<rparr>"

definition errorTurn :: JSValue where
  "errorTurn = asValue errorTurnData"

definition cleanResponse :: "string option \<Rightarrow> string" where
  "cleanResponse t =
     (let text = (case t of None \<Rightarrow> ''{}'' | Some s \<Rightarrow> if s = [] then ''{}'' else s)
      in trim (stripFences text))"

text \<open>
  \<open>sendMessage\<close> after its single await: a rejection of the chat request is rethrown; a reply
  is cleaned and parsed, what \<open>JSON.parse\<close> returns is the turn, whatever value it is, and only
  a text that \<open>JSON.parse\<close> rejects yields the placeholder turn.
\<close>

definition sendMessage_settle ::
  "Host \<Rightarrow> Error + ChatResult \<Rightarrow> Error + JSValue \<times> GroundingChunk list option" where
  "sendMessage_settle host r =
     (case r of
        Inl e \<Rightarrow> Inl e
      | Inr result \<Rightarrow>
          (let text = cleanResponse (resultText result);
               turnData = (case JSON_parse host text of Some v \<Rightarrow> v | None \<Rightarrow> errorTurn)
           in Inr (turnData, resultChunks result)))"

text \<open>
  \<open>generateBridgeResponse\<close> after its single await: the trimmed reply, or the target context
  when the request is rejected or the reply carries no text. It never rejects.
\<close>

definition generateBridgeResponse_settle ::
  "JSValue \<Rightarrow> Error + string option \<Rightarrow> Error + JSValue" where
  "generateBridgeResponse_settle targetContext r =
     (case r of
        Inr (Some t) \<Rightarrow> Inr (JString (trim t))
      | Inr None \<Rightarrow> Inr targetContext
      | Inl e \<Rightarrow> Inr targetContext)"

section \<open>The turn controller (components/GameInterface)\<close>

definition TOTAL_TURNS :: int where
  "TOTAL_TURNS = 10"

datatype FeedbackType = fb_success | fb_error

text \<open>The two network requests the controller can issue; the bridge prompt is a fixed template
  around the user's input and the target context, which are recorded in its place.\<close>

datatype Request =
    ChatSendMessage string
  | GenerateContent string JSValue

text \<open>
  Each handler is an async function; it runs up to an await, and its rest runs when the awaited
  promise settles. \<open>Pending\<close> is the suspended rest, with what its closure captured.
\<close>

datatype Pending =
    Unmounted
  | Idle
  | StartQuest_sendMessage
  | EnglishSubmit_bridge JSValue
  | OptionSelect_delay GameState
  | OptionSelect_sendMessage

text \<open>
  The component's hooks (\<open>messages\<close>, \<open>isProcessing\<close>, \<open>englishInput\<close>, \<open>feedbackMessage\<close>,
  \<open>gameState\<close>), the module variable \<open>chatSession\<close> (whether it is set), the suspended handler
  and the requests issued so far.
\<close>

record World =
  messages :: "ChatMessage list"
  isProcessing :: bool
  englishInput :: string
  feedbackMessage :: "(string \<times> FeedbackType) option"
  gameState :: GameState
  chatSession :: bool
  pending :: Pending
  requests :: "Request list"

definition initialWorld :: World where
  "initialWorld =
     \<lparr> messages = [],
       isProcessing = False,
       englishInput = [],
       feedbackMessage = None,
       gameState = \<lparr> status = intro, location = None, currentTurn = 1,
                     maxTurns = TOTAL_TURNS, activeChallenge = JNull, turnStep = concept \<rparr>,
       chatSession = False,
       pending = Unmounted,
       requests = [] \<rparr>"

text \<open>\<open>sendMessage\<close> up to its await: it throws without a chat session, else sends the request.\<close>

definition sendMessage_call :: "string \<Rightarrow> World \<Rightarrow> Error + World" where
  "sendMessage_call message w =
     (if \<not> chatSession w then Inl (Error ''Chat session not initialized'')
      else Inr (w\<lparr>requests := requests w @ [ChatSendMessage message]\<rparr>))"

text \<open>
  \<open>generateBridgeResponse\<close> up to its await: the prompt is built inside the \<open>try\<close>, so a target
  context that cannot be converted to a string throws there and no request is sent.
\<close>

definition generateBridgeResponse_call :: "Host \<Rightarrow> string \<Rightarrow> JSValue \<Rightarrow> World \<Rightarrow> Error + World" where
  "generateBridgeResponse_call host userInput targetContext w =
     (case interpolate host targetContext of
        Inl e \<Rightarrow> Inl e
      | Inr shown \<Rightarrow> Inr (w\<lparr>requests := requests w @ [GenerateContent userInput targetContext]\<rparr>))"

text \<open>\<open>startQuest\<close>, run once by the mount effect; \<open>created\<close> tells whether \<open>ai.chats.create\<close>
  inside \<open>initChat\<close> returned a session.\<close>

definition startQuest :: "bool \<Rightarrow> World \<Rightarrow> World" where
  "startQuest created w =
     (let w1 = w\<lparr>gameState := (gameState w)\<lparr>status := loading\<rparr>\<rparr>;
          failed = (\<lambda>v. v\<lparr>gameState := (gameState v)\<lparr>status := error\<rparr>, pending := Idle\<rparr>)
      in if \<not> created then failed w1
         else (case sendMessage_call ''START_GAME_MIZZOU_EDITION'' (w1\<lparr>chatSession := True\<rparr>) of
                 Inl e \<Rightarrow> failed (w1\<lparr>chatSession := True\<rparr>)
               | Inr w2 \<Rightarrow> w2\<lparr>pending := StartQuest_sendMessage\<rparr>))"

definition startQuest_resume :: "Host \<Rightarrow> Error + ChatResult \<Rightarrow> World \<Rightarrow> World" where
  "startQuest_resume host r w =
     (case sendMessage_settle host r of
        Inr (turnData, chunks) \<Rightarrow>
          w\<lparr>messages :=
              [\<lparr> role = MODEL, msgText = JUndefined, structuredContent = turnData,
                 groundingChunks = chunks, isCorrect = None, step = Some concept \<rparr>],
            gameState := (gameState w)\<lparr>status := playing, currentTurn := 1,
                                       activeChallenge := turnData, turnStep := concept\<rparr>,
            pending := Idle\<rparr>
      | Inl e \<Rightarrow> w\<lparr>gameState := (gameState w)\<lparr>status := error\<rparr>, pending := Idle\<rparr>)"

text \<open>Step 1: the English concept input. The rest of the handler takes what
  \<open>generateBridgeResponse\<close> returned.\<close>

definition handleEnglishSubmit_resume :: "Error + JSValue \<Rightarrow> World \<Rightarrow> World" where
  "handleEnglishSubmit_resume bridged w =
     (let w1 =
        (case bridged of
           Inr bridgeText \<Rightarrow>
             w\<lparr>gameState := (gameState w)
                  \<lparr>activeChallenge :=
                     (if truthy (activeChallenge (gameState w))
                      then spreadWithConcept (activeChallenge (gameState w)) bridgeText
                      else JNull),
                   turnStep := grammar\<rparr>\<rparr>
         | Inl e \<Rightarrow> w\<lparr>gameState := (gameState w)\<lparr>turnStep := grammar\<rparr>\<rparr>)
      in w1\<lparr>isProcessing := False, pending := Idle\<rparr>)"

definition handleEnglishSubmit :: "Host \<Rightarrow> World \<Rightarrow> World" where
  "handleEnglishSubmit host w =
     (if trim (englishInput w) = [] \<or> isProcessing w \<or> \<not> truthy (activeChallenge (gameState w))
      then w
      else
        (let userInput = englishInput w;
             targetContext = property (activeChallenge (gameState w)) ''spanishConcept'';
             w1 = w\<lparr>englishInput := [],
                    isProcessing := True,
                    messages := messages w @
                      [\<lparr> role = USER, msgText = JString userInput, structuredContent = JUndefined,
                         groundingChunks = None, isCorrect = None, step = Some concept \<rparr>]\<rparr>
         in case generateBridgeResponse_call host userInput targetContext w1 of
              Inr w2 \<Rightarrow> w2\<lparr>pending := EnglishSubmit_bridge targetContext\<rparr>
            | Inl e \<Rightarrow> handleEnglishSubmit_resume (Inr targetContext) w1))"

text \<open>Step 2: the Spanish option; the rest of the handler runs after the 1500 ms timer and
  reads the \<open>gameState\<close> its closure captured at the click. A wrong answer whose explanation
  cannot be converted to a string throws after the message was appended. The success text
  starts with the code units U+00C2 and U+00A1, as the literal of the source file does.\<close>

definition handleOptionSelect :: "Host \<Rightarrow> JSValue \<Rightarrow> World \<Rightarrow> World" where
  "handleOptionSelect host selectedOption w =
     (if isProcessing w \<or> \<not> truthy (activeChallenge (gameState w)) then w
      else
        (let ch = activeChallenge (gameState w);
             correct = strictEquals selectedOption (property ch ''correctAnswer'');
             w1 = w\<lparr>messages := messages w @
                     [\<lparr> role = USER, msgText = selectedOption, structuredContent = JUndefined,
                        groundingChunks = None, isCorrect = Some correct,
                        step = Some grammar \<rparr>]\<rparr>
         in if \<not> correct
            then (case interpolate host (property ch ''explanation'') of
                    Inr shown \<Rightarrow>
                      w1\<lparr>feedbackMessage :=
                           Some (''Incorrect. '' @ shown @ '' Try again!'', fb_error)\<rparr>
                  | Inl e \<Rightarrow> w1)
            else w1\<lparr>feedbackMessage := Some (CHR 0xC2 # CHR 0xA1 # ''Correcto! Next stop...'', fb_success),
                    isProcessing := True,
                    gameState := (gameState w)\<lparr>activeChallenge := JNull\<rparr>,
                    pending := OptionSelect_delay (gameState w)\<rparr>))"

definition handleOptionSelect_afterDelay :: "GameState \<Rightarrow> World \<Rightarrow> World" where
  "handleOptionSelect_afterDelay captured w =
     (let w1 = w\<lparr>feedbackMessage := None\<rparr>
      in if currentTurn captured \<ge> maxTurns captured
         then w1\<lparr>gameState := (gameState w1)\<lparr>status := finished\<rparr>,
                 isProcessing := False, pending := Idle\<rparr>
         else
           (let w2 = w1\<lparr>gameState := (gameState w1)\<lparr>currentTurn := currentTurn (gameState w1) + 1\<rparr>\<rparr>
            in case sendMessage_call (''NEXT_TURN_'' @ numberToString (currentTurn captured + 1)) w2 of
                 Inl e \<Rightarrow> w2\<lparr>isProcessing := False, pending := Idle\<rparr>
               | Inr w3 \<Rightarrow> w3\<lparr>pending := OptionSelect_sendMessage\<rparr>))"

definition handleOptionSelect_resume :: "Host \<Rightarrow> Error + ChatResult \<Rightarrow> World \<Rightarrow> World" where
  "handleOptionSelect_resume host r w =
     (let w1 =
        (case sendMessage_settle host r of
           Inr (turnData, chunks) \<Rightarrow>
             w\<lparr>messages := messages w @
                  [\<lparr> role = MODEL, msgText = JUndefined, structuredContent = turnData,
                     groundingChunks = chunks, isCorrect = None, step = Some concept \<rparr>],
               gameState := (gameState w)\<lparr>activeChallenge := turnData, turnStep := concept\<rparr>\<rparr>
         | Inl e \<Rightarrow> w)
      in w1\<lparr>isProcessing := False, pending := Idle\<rparr>)"

text \<open>
  The events the component reacts to. The text input exists only while the phase-1 form is
  rendered; the two handlers are entry points with their own guards, and the option handed
  to \<open>handleOptionSelect\<close> may be any value. What the view draws of a message or of a
  challenge is not part of the model.
\<close>

datatype Event =
    Mount bool
  | ChatSettled "Error + ChatResult"
  | BridgeSettled "Error + string option"
  | TimerFired
  | InputChange string
  | FormSubmit
  | OptionClick JSValue

definition formRendered :: "World \<Rightarrow> bool" where
  "formRendered w =
     (status (gameState w) \<noteq> loading \<and> status (gameState w) \<noteq> intro
      \<and> status (gameState w) \<noteq> finished
      \<and> truthy (activeChallenge (gameState w)) \<and> \<not> isProcessing w
      \<and> turnStep (gameState w) = concept)"

fun fire :: "Host \<Rightarrow> Event \<Rightarrow> World \<Rightarrow> World" where
  "fire host (Mount created) w =
     (case pending w of Unmounted \<Rightarrow> startQuest created w | _ \<Rightarrow> w)"
| "fire host (ChatSettled r) w =
     (case pending w of
        StartQuest_sendMessage \<Rightarrow> startQuest_resume host r w
      | OptionSelect_sendMessage \<Rightarrow> handleOptionSelect_resume host r w
      | _ \<Rightarrow> w)"
| "fire host (BridgeSettled r) w =
     (case pending w of
        EnglishSubmit_bridge targetContext \<Rightarrow>
          handleEnglishSubmit_resume (generateBridgeResponse_settle targetContext r) w
      | _ \<Rightarrow> w)"
| "fire host TimerFired w =
     (case pending w of
        OptionSelect_delay captured \<Rightarrow> handleOptionSelect_afterDelay captured w
      | _ \<Rightarrow> w)"
| "fire host (InputChange s) w = (if formRendered w then w\<lparr>englishInput := s\<rparr> else w)"
| "fire host FormSubmit w = handleEnglishSubmit host w"
| "fire host (OptionClick selectedOption) w = handleOptionSelect host selectedOption w"

fun run :: "Host \<Rightarrow> Event list \<Rightarrow> World \<Rightarrow> World" where
  "run host [] w = w"
| "run host (e # es) w = run host es (fire host e w)"

section \<open>Predicates on runs\<close>

text \<open>What holds of every world the controller can reach from \<open>initialWorld\<close>, by the
  continuation that is suspended.\<close>

definition consistent :: "World \<Rightarrow> bool" where
  "consistent w =
     (let g = gameState w in
      maxTurns g = TOTAL_TURNS \<and> 1 \<le> currentTurn g \<and> currentTurn g \<le> maxTurns g \<and>
      (case pending w of
         Unmounted \<Rightarrow> status g = intro \<and> activeChallenge g = JNull \<and> currentTurn g = 1
                        \<and> \<not> isProcessing w
       | Idle \<Rightarrow> \<not> isProcessing w \<and> (activeChallenge g = JNull \<or> status g = playing \<and> chatSession w)
       | StartQuest_sendMessage \<Rightarrow> status g = loading \<and> activeChallenge g = JNull
                        \<and> currentTurn g = 1 \<and> chatSession w \<and> \<not> isProcessing w
       | EnglishSubmit_bridge t \<Rightarrow> isProcessing w \<and> status g = playing
                        \<and> truthy (activeChallenge g) \<and> chatSession w
       | OptionSelect_delay c \<Rightarrow> isProcessing w \<and> status g = playing \<and> activeChallenge g = JNull
                        \<and> chatSession w \<and> currentTurn c = currentTurn g \<and> maxTurns c = maxTurns g
       | OptionSelect_sendMessage \<Rightarrow> isProcessing w \<and> status g = playing
                        \<and> activeChallenge g = JNull \<and> chatSession w))"

text \<open>Whether, along the run of \<open>es\<close> from \<open>w\<close>, a request for a next turn is rejected.\<close>

fun nextTurnRejected :: "Host \<Rightarrow> Event list \<Rightarrow> World \<Rightarrow> bool" where
  "nextTurnRejected host [] w = False"
| "nextTurnRejected host (e # es) w =
     ((case e of ChatSettled (Inl err) \<Rightarrow> pending w = OptionSelect_sendMessage | _ \<Rightarrow> False)
      \<or> nextTurnRejected host es (fire host e w))"

text \<open>Whether the rest of \<open>startQuest\<close> or of \<open>handleOptionSelect\<close> is waiting for the reply
  to a chat request.\<close>

definition awaitingReply :: "World \<Rightarrow> bool" where
  "awaitingReply w =
     (case pending w of
        StartQuest_sendMessage \<Rightarrow> True
      | OptionSelect_sendMessage \<Rightarrow> True
      | _ \<Rightarrow> False)"

text \<open>Whether, along the run of \<open>es\<close> from \<open>w\<close>, an awaited reply parses to \<open>null\<close>.\<close>

definition parsesNull :: "Host \<Rightarrow> ChatResult \<Rightarrow> bool" where
  "parsesNull host result = (JSON_parse host (cleanResponse (resultText result)) = Some JNull)"

fun nullTurnDelivered :: "Host \<Rightarrow> Event list \<Rightarrow> World \<Rightarrow> bool" where
  "nullTurnDelivered host [] w = False"
| "nullTurnDelivered host (e # es) w =
     ((case e of
         ChatSettled (Inr result) \<Rightarrow> awaitingReply w \<and> parsesNull host result
       | _ \<Rightarrow> False)
      \<or> nullTurnDelivered host es (fire host e w))"

text \<open>Whether, along the run of \<open>es\<close> from \<open>w\<close>, an awaited reply parses to a value that is not
  truthy (\<open>null\<close>, \<open>false\<close>, \<open>0\<close> or the empty string).\<close>

definition parsesFalsy :: "Host \<Rightarrow> ChatResult \<Rightarrow> bool" where
  "parsesFalsy host result =
     (case JSON_parse host (cleanResponse (resultText result)) of
        Some v \<Rightarrow> \<not> truthy v
      | None \<Rightarrow> False)"

fun falsyTurnDelivered :: "Host \<Rightarrow> Event list \<Rightarrow> World \<Rightarrow> bool" where
  "falsyTurnDelivered host [] w = False"
| "falsyTurnDelivered host (e # es) w =
     ((case e of
         ChatSettled (Inr result) \<Rightarrow> awaitingReply w \<and> parsesFalsy host result
       | _ \<Rightarrow> False)
      \<or> falsyTurnDelivered host es (fire host e w))"

text \<open>The window between a correct answer and the arrival of the next turn (or the end of the
  game): the rest of \<open>handleOptionSelect\<close> is suspended.\<close>

definition awaitingNextTurn :: "World \<Rightarrow> bool" where
  "awaitingNextTurn w =
     (case pending w of
        OptionSelect_delay c \<Rightarrow> True
      | OptionSelect_sendMessage \<Rightarrow> True
      | _ \<Rightarrow> False)"

definition awaitingDelay :: "World \<Rightarrow> bool" where
  "awaitingDelay w = (case pending w of OptionSelect_delay c \<Rightarrow> True | _ \<Rightarrow> False)"

text \<open>The active challenge is not \<open>null\<close>, respectively is a value the guards of the handlers
  and the view accept, exactly when the status is \<open>playing\<close> outside that window.\<close>

definition challengeIffActive :: "World \<Rightarrow> bool" where
  "challengeIffActive w =
     ((activeChallenge (gameState w) \<noteq> JNull)
        = (status (gameState w) = playing \<and> \<not> awaitingNextTurn w))"

definition truthyIffActive :: "World \<Rightarrow> bool" where
  "truthyIffActive w =
     (truthy (activeChallenge (gameState w))
        = (status (gameState w) = playing \<and> \<not> awaitingNextTurn w))"

text \<open>A payload inside a fenced block tagged \<open>json\<close>.\<close>

definition fenced :: "string \<Rightarrow> string" where
  "fenced payload = ''```json\<newline>'' @ payload @ ''\<newline>```''"



definition whiteSpaceOnly :: "string \<Rightarrow> bool" where
  "whiteSpaceOnly s = list_all isWhiteSpace s"

definition endsWithLineFeed :: "string \<Rightarrow> bool" where
  "endsWithLineFeed s = (case rev s of [] \<Rightarrow> False | c # cs \<Rightarrow> c = CHR 0x0A)"

text \<open>Forgetting the \<open>isGameOver\<close> property of every turn a world holds, and a host whose
  parser sets or removes that property of the object it delivers at will.\<close>

definition removeProperty :: "string \<Rightarrow> (string \<times> JSValue) list \<Rightarrow> (string \<times> JSValue) list" where
  "removeProperty name ps = filter (\<lambda>p. fst p \<noteq> name) ps"

fun eraseFlag :: "JSValue \<Rightarrow> JSValue" where
  "eraseFlag (JObject ps) = JObject (removeProperty ''isGameOver'' ps)"
| "eraseFlag v = v"

fun withFlag :: "JSValue option \<Rightarrow> JSValue \<Rightarrow> JSValue" where
  "withFlag (Some x) (JObject ps) = JObject (setProperty ''isGameOver'' x ps)"
| "withFlag None (JObject ps) = JObject (removeProperty ''isGameOver'' ps)"
| "withFlag flag v = v"

definition eraseMessage :: "ChatMessage \<Rightarrow> ChatMessage" where
  "eraseMessage m = m\<lparr>structuredContent := eraseFlag (structuredContent m)\<rparr>"

definition eraseGameState :: "GameState \<Rightarrow> GameState" where
  "eraseGameState g = g\<lparr>activeChallenge := eraseFlag (activeChallenge g)\<rparr>"

fun erasePending :: "Pending \<Rightarrow> Pending" where
  "erasePending (OptionSelect_delay c) = OptionSelect_delay (eraseGameState c)"
| "erasePending p = p"

definition eraseWorld :: "World \<Rightarrow> World" where
  "eraseWorld w =
     w\<lparr>messages := map eraseMessage (messages w),
       gameState := eraseGameState (gameState w),
       pending := erasePending (pending w)\<rparr>"

definition reflag :: "(string \<Rightarrow> JSValue option) \<Rightarrow> Host \<Rightarrow> Host" where
  "reflag f host =
     host\<lparr>JSON_parse := (\<lambda>s. map_option (withFlag (f s)) (JSON_parse host s))\<rparr>"

section \<open>A sample session\<close>

text \<open>
  The conversion to a string of JavaScript, on the values above: an array joins its elements
  with commas, \<open>null\<close> and \<open>undefined\<close> elements giving nothing; an object gives
  \<open>[object Object]\<close>, unless it has an own property \<open>toString\<close>, which is no function and
  makes the conversion throw.
\<close>

fun jsToString :: "JSValue \<Rightarrow> Error + string"
  and jsJoin :: "JSValue list \<Rightarrow> Error + string" where
  "jsToString JUndefined = Inr ''undefined''"
| "jsToString JNull = Inr ''null''"
| "jsToString (JBool b) = Inr (if b then ''true'' else ''false'')"
| "jsToString (JNumber n) = Inr n"
| "jsToString (JString s) = Inr s"
| "jsToString (JArray xs) = jsJoin xs"
| "jsToString (JObject ps) =
     (if map_of ps ''toString'' \<noteq> None then Inl (Error ''TypeError'')
      else Inr ''[object Object]'')"
| "jsJoin [] = Inr []"
| "jsJoin (x # xs) =
     (case (if x = JUndefined \<or> x = JNull then Inr [] else jsToString x) of
        Inl e \<Rightarrow> Inl e
      | Inr shown \<Rightarrow>
          (if xs = [] then Inr shown
           else (case jsJoin xs of Inl e \<Rightarrow> Inl e | Inr rest \<Rightarrow> Inr (shown @ '','' @ rest))))"

definition ellisTurnData :: GameTurnData where
  "ellisTurnData =
     \<lparr> locationName = ''Ellis Library'',
       locationType = ''library'',
       englishQuestion = ''We are in the library. What is the most important rule?'',
       spanishConcept = ''Strict silence is required here.'',
       question = ''Aqui _____ (exigir) silencio.'',
       options = [''Se exige'', ''Se busca'', ''Se exigen''],
       correctAnswer = ''Se exige'',
       explanation = ''Singular object (silencio) -> Se exige.'',
       isGameOver = Some False \<rparr>"

definition ellisTurn :: JSValue where
  "ellisTurn = asValue ellisTurnData"

definition ellisPayload :: string where
  \<open>ellisPayload = ''{"locationName":"Ellis Library","locationType":"library","englishQuestion":"We are in the library. What is the most important rule?","spanishConcept":"Strict silence is required here.","question":"Aqui _____ (exigir) silencio.","options":["Se exige","Se busca","Se exigen"],"correctAnswer":"Se exige","explanation":"Singular object (silencio) -> Se exige.","isGameOver":false}''\<close>

text \<open>An instance of the parser that knows the payload of the sample session and the texts
  \<open>null\<close> and \<open>{}\<close>.\<close>

definition sampleParse :: "string \<Rightarrow> JSValue option" where
  "sampleParse s =
     (if s = ellisPayload then Some ellisTurn
      else if s = ''null'' then Some JNull
      else if s = ''{}'' then Some (JObject [])
      else None)"

definition sampleHost :: Host where
  "sampleHost = \<lparr> JSON_parse = sampleParse, ToString = jsToString \<rparr>"

definition ellisReply :: ChatResult where
  "ellisReply =
     \<lparr> resultText = Some (fenced ellisPayload),
       resultChunks = None \<rparr>"

definition proseReply :: ChatResult where
  "proseReply = \<lparr> resultText = Some ''Sorry, I cannot help with that.'', resultChunks = None \<rparr>"

definition nullReply :: ChatResult where
  "nullReply = \<lparr> resultText = Some ''null'', resultChunks = None \<rparr>"

definition noTextReply :: ChatResult where
  "noTextReply = \<lparr> resultText = None, resultChunks = None \<rparr>"

text \<open>One full turn answered correctly, the bridge request failing, the next turn arriving.\<close>

definition playTurn :: "Event list" where
  "playTurn =
     [InputChange ''keep quiet'', FormSubmit, BridgeSettled (Inl (Error ''offline'')),
      OptionClick (JString ''Se exige''), TimerFired, ChatSettled (Inr ellisReply)]"

definition conceptWorld :: World where
  "conceptWorld = run sampleHost [Mount True, ChatSettled (Inr ellisReply)] initialWorld"

definition toGrammar :: "Event list" where
  "toGrammar =
     [Mount True, ChatSettled (Inr ellisReply),
      InputChange ''keep quiet'', FormSubmit, BridgeSettled (Inl (Error ''offline''))]"

definition grammarWorld :: World where
  "grammarWorld = run sampleHost toGrammar initialWorld"

definition toLastTurn :: "Event list" where
  "toLastTurn =
     [Mount True, ChatSettled (Inr ellisReply)] @ concat (replicate 9 playTurn) @
     [InputChange ''keep quiet'', FormSubmit, BridgeSettled (Inl (Error ''offline''))]"

definition lastTurnWorld :: World where
  "lastTurnWorld = run sampleHost toLastTurn initialWorld"

text \<open>The sample session waiting for the English answer at stop \<open>n\<close>.\<close>

definition atStop :: "int \<Rightarrow> World \<Rightarrow> bool" where
  "atStop n w =
     (pending w = Idle \<and> \<not> isProcessing w \<and> chatSession w
      \<and> gameState w = \<lparr> status = playing, location = None, currentTurn = n, maxTurns = 10,
                         activeChallenge = ellisTurn, turnStep = concept \<rparr>)"

definition toStuck :: "Event list" where
  "toStuck =
     toGrammar @ [OptionClick (JString ''Se exige''), TimerFired,
                  ChatSettled (Inl (Error ''network down''))]"

text \<open>The session whose first reply has no text, so that \<open>{}\<close> is parsed.\<close>

definition emptyTurnWorld :: World where
  "emptyTurnWorld = run sampleHost [Mount True, ChatSettled (Inr noTextReply)] initialWorld"

section \<open>Auxiliary facts\<close>

lemmas handler_defs =
  startQuest_def startQuest_resume_def handleEnglishSubmit_def handleEnglishSubmit_resume_def
  handleOptionSelect_def handleOptionSelect_afterDelay_def handleOptionSelect_resume_def
  sendMessage_call_def sendMessage_settle_def generateBridgeResponse_call_def
  generateBridgeResponse_settle_def formRendered_def

lemma run_append: "run host (es @ fs) w = run host fs (run host es w)"
  by (induction es arbitrary: w) simp_all

subsection \<open>Cleaning a reply\<close>

lemma startsWith_prefix: "startsWith s p = prefix p s"
  unfolding startsWith_def
  by (metis append_eq_conv_conj prefix_def take_is_prefix)

lemma startsWith_set: "startsWith s p \<Longrightarrow> set p \<subseteq> set s"
  by (simp add: startsWith_prefix set_mono_prefix)

lemma stripFences_no_backtick: "CHR 0x60 \<notin> set s \<Longrightarrow> stripFences s = s"
proof (induction s rule: stripFences.induct)
  case 1
  show ?case by simp
next
  case (2 c cs)
  have no: "\<And>p. CHR 0x60 \<in> set p \<Longrightarrow> \<not> startsWith (c # cs) p"
    using 2(6) startsWith_set by blast
  have "stripFences (c # cs) = c # stripFences cs"
    by (simp add: no del: startsWith_def)
  moreover have "stripFences cs = cs"
    using 2(5) 2(6) by (simp add: no)
  ultimately show ?case by simp
qed

lemma dropWhile_keep: "xs \<noteq> [] \<Longrightarrow> \<not> P (hd xs) \<Longrightarrow> dropWhile P xs = xs"
  by (cases xs) simp_all

lemma trim_id:
  assumes "s \<noteq> []" and "\<not> isWhiteSpace (hd s)" and "\<not> isWhiteSpace (last s)"
  shows "trim s = s"
proof -
  have a: "dropWhile isWhiteSpace s = s"
    using assms(1,2) by (rule dropWhile_keep)
  have "rev s \<noteq> []" and "\<not> isWhiteSpace (hd (rev s))"
    using assms(1,3) by (simp_all add: hd_rev)
  then have "dropWhile isWhiteSpace (rev s) = rev s"
    by (rule dropWhile_keep)
  then show ?thesis by (simp add: trim_def a)
qed

text \<open>How the four tests of the scan read a text that is followed by a closing fence and
  whatever comes after it.\<close>

lemma startsWith_open_nl:
  "startsWith (s @ ''\<newline>```'' @ post) ''```json\<newline>''
     = (startsWith s ''```json\<newline>'' \<or> s = ''```json'')"
  by (auto simp: startsWith_prefix prefix_append prefix_Cons Cons_eq_append_conv)

lemma startsWith_open:
  "startsWith (s @ ''\<newline>```'' @ post) ''```json'' = startsWith s ''```json''"
  by (auto simp: startsWith_prefix prefix_append prefix_Cons Cons_eq_append_conv)

lemma startsWith_nl_close:
  "startsWith (s @ ''\<newline>```'' @ post) ''\<newline>```'' = (startsWith s ''\<newline>```'' \<or> s = [])"
  by (auto simp: startsWith_prefix prefix_append prefix_Cons Cons_eq_append_conv)

lemma startsWith_close:
  "startsWith (s @ ''\<newline>```'' @ post) ''```'' = startsWith s ''```''"
  by (auto simp: startsWith_prefix prefix_append prefix_Cons Cons_eq_append_conv)

lemma drop_matched: "startsWith s p \<Longrightarrow> n \<le> length p \<Longrightarrow> drop n (s @ t) = drop n s @ t"
  by (auto simp: startsWith_prefix prefix_def)

lemma stripFences_closing:
  assumes "CHR 0x60 \<notin> set post" and "\<not> startsWith post ''json''"
  shows "stripFences (p @ ''\<newline>```'' @ post) = stripFences p @ post"
proof (induction p rule: stripFences.induct)
  case 1
  have "stripFences (''\<newline>```'' @ post) = stripFences post"
    by (simp add: startsWith_def)
  then show ?case
    using assms(1) by (simp add: stripFences_no_backtick)
next
  case (2 c cs)
  let ?s = "c # cs"
  let ?f = "''\<newline>```'' @ post"
  have app: "?s @ ?f = c # (cs @ ?f)" by simp
  have "\<not> prefix ''json\<newline>'' post"
    using assms(2) append_prefixD [of "''json''" "''\<newline>''" post]
    by (auto simp: startsWith_prefix)
  then have "stripFences (''```'' @ post) = stripFences post"
    using assms(2) by (simp add: startsWith_prefix)
  then have whole: "?s = ''```json'' \<Longrightarrow> ?case"
    using assms(1) by (simp add: startsWith_def stripFences_no_backtick)
  consider (fence_nl) "startsWith ?s ''```json\<newline>''"
    | (fence) "\<not> startsWith ?s ''```json\<newline>''" "startsWith ?s ''```json''"
    | (nl_ticks) "\<not> startsWith ?s ''```json\<newline>''" "\<not> startsWith ?s ''```json''"
        "startsWith ?s ''\<newline>```''"
    | (ticks) "\<not> startsWith ?s ''```json\<newline>''" "\<not> startsWith ?s ''```json''"
        "\<not> startsWith ?s ''\<newline>```''" "startsWith ?s ''```''"
    | (keep) "\<not> startsWith ?s ''```json\<newline>''" "\<not> startsWith ?s ''```json''"
        "\<not> startsWith ?s ''\<newline>```''" "\<not> startsWith ?s ''```''"
    by blast
  then show ?case
  proof cases
    case fence_nl
    have "startsWith (?s @ ?f) ''```json\<newline>''"
      using fence_nl by (simp del: append_Cons add: startsWith_open_nl)
    moreover have "drop 7 (cs @ ?f) = drop 7 cs @ ?f"
      using drop_matched [OF fence_nl, of 8 ?f] by simp
    ultimately show ?thesis
      using fence_nl 2(1) by (simp del: append_Cons add: app)
  next
    case fence
    show ?thesis
    proof (cases "?s = ''```json''")
      case True
      then show ?thesis by (rule whole)
    next
      case False
      have "drop 6 (cs @ ?f) = drop 6 cs @ ?f"
        using drop_matched [OF fence(2), of 7 ?f] by simp
      moreover have "stripFences (drop 6 cs @ ?f) = stripFences (drop 6 cs) @ post"
        using 2(2) fence by simp
      moreover have "stripFences ?s = stripFences (drop 6 cs)"
        using fence by simp
      moreover have "\<not> startsWith (?s @ ?f) ''```json\<newline>''"
        using fence(1) False by (simp del: append_Cons add: startsWith_open_nl)
      moreover have "startsWith (?s @ ?f) ''```json''"
        using fence(2) by (simp del: append_Cons add: startsWith_open)
      ultimately show ?thesis
        by (simp del: append_Cons add: app)
    qed
  next
    case nl_ticks
    have "drop 3 (cs @ ?f) = drop 3 cs @ ?f"
      using drop_matched [OF nl_ticks(3), of 4 ?f] by simp
    moreover have "stripFences (drop 3 cs @ ?f) = stripFences (drop 3 cs) @ post"
      using 2(3) nl_ticks by simp
    moreover have "stripFences ?s = stripFences (drop 3 cs)"
      using nl_ticks by simp
    moreover have "\<not> startsWith (?s @ ?f) ''```json\<newline>''"
      using nl_ticks(3) by (simp add: startsWith_def)
    moreover have "\<not> startsWith (?s @ ?f) ''```json''"
      using nl_ticks(2) by (simp del: append_Cons add: startsWith_open)
    moreover have "startsWith (?s @ ?f) ''\<newline>```''"
      using nl_ticks(3) by (simp del: append_Cons add: startsWith_nl_close)
    ultimately show ?thesis
      by (simp del: append_Cons add: app)
  next
    case ticks
    have differs: "?s \<noteq> ''```json''"
      using ticks(2) by (auto simp: startsWith_def)
    have "drop 2 (cs @ ?f) = drop 2 cs @ ?f"
      using drop_matched [OF ticks(4), of 3 ?f] by simp
    moreover have "stripFences (drop 2 cs @ ?f) = stripFences (drop 2 cs) @ post"
      using 2(4) ticks by simp
    moreover have "stripFences ?s = stripFences (drop 2 cs)"
      using ticks by simp
    moreover have "\<not> startsWith (?s @ ?f) ''```json\<newline>''"
      using ticks(1) differs by (simp del: append_Cons add: startsWith_open_nl)
    moreover have "\<not> startsWith (?s @ ?f) ''```json''"
      using ticks(2) by (simp del: append_Cons add: startsWith_open)
    moreover have "\<not> startsWith (?s @ ?f) ''\<newline>```''"
      using ticks(3) by (simp del: append_Cons add: startsWith_nl_close)
    moreover have "startsWith (?s @ ?f) ''```''"
      using ticks(4) by (simp del: append_Cons add: startsWith_close)
    ultimately show ?thesis
      by (simp del: append_Cons add: app)
  next
    case keep
    have differs: "?s \<noteq> ''```json''"
      using keep(2) by (auto simp: startsWith_def)
    have "stripFences (cs @ ?f) = stripFences cs @ post"
      using 2(5) keep by simp
    moreover have "stripFences ?s = c # stripFences cs"
      using keep by simp
    moreover have "\<not> startsWith (?s @ ?f) ''```json\<newline>''"
      using keep(1) differs by (simp del: append_Cons add: startsWith_open_nl)
    moreover have "\<not> startsWith (?s @ ?f) ''```json''"
      using keep(2) by (simp del: append_Cons add: startsWith_open)
    moreover have "\<not> startsWith (?s @ ?f) ''\<newline>```''"
      using keep(3) by (simp del: append_Cons add: startsWith_nl_close)
    moreover have "\<not> startsWith (?s @ ?f) ''```''"
      using keep(4) by (simp del: append_Cons add: startsWith_close)
    ultimately show ?thesis
      by (simp del: append_Cons add: app)
  qed
qed

lemma stripFences_fenced:
  assumes "CHR 0x60 \<notin> set post" and "\<not> startsWith post ''json''"
  shows "stripFences (fenced p @ post) = stripFences p @ post"
  using stripFences_closing [OF assms, of p] by (simp add: fenced_def startsWith_def)

lemma fenced_not_empty: "fenced p \<noteq> []"
  by (simp add: fenced_def)


text \<open>White space in front of a text is kept as it is, unless it ends in a line feed and the
  text starts with three backticks: then the second alternative takes both.\<close>

lemma whiteSpace_no_backtick: "whiteSpaceOnly s \<Longrightarrow> CHR 0x60 \<notin> set s"
  by (auto simp: whiteSpaceOnly_def list_all_iff isWhiteSpace_def)

lemma whiteSpace_not_json: "whiteSpaceOnly s \<Longrightarrow> \<not> startsWith s ''json''"
  by (cases s) (auto simp: whiteSpaceOnly_def isWhiteSpace_def startsWith_def)

lemma stripFences_leading:
  assumes "CHR 0x60 \<notin> set pre" and "\<not> endsWithLineFeed pre"
  shows "stripFences (pre @ s) = pre @ stripFences s"
  using assms
proof (induction pre)
  case Nil
  show ?case by simp
next
  case (Cons c cs)
  have c: "c \<noteq> CHR 0x60" and cs: "CHR 0x60 \<notin> set cs"
    using Cons.prems(1) by auto
  have tail: "\<not> endsWithLineFeed cs"
    using Cons.prems(2) by (cases "rev cs") (auto simp: endsWithLineFeed_def)
  have single: "cs = [] \<Longrightarrow> c \<noteq> CHR 0x0A"
    using Cons.prems(2) by (auto simp: endsWithLineFeed_def)
  have no_match: "\<not> startsWith (c # cs @ s) ''\<newline>```''"
  proof (cases cs)
    case Nil
    then show ?thesis using single by (simp add: startsWith_def)
  next
    case (Cons d ds)
    then show ?thesis using cs by (auto simp: startsWith_def)
  qed
  have "\<not> startsWith (c # cs @ s) ''```json\<newline>''"
    and "\<not> startsWith (c # cs @ s) ''```json''"
    and "\<not> startsWith (c # cs @ s) ''```''"
    using c by (simp_all add: startsWith_def)
  then have "stripFences (c # cs @ s) = c # stripFences (cs @ s)"
    using no_match by simp
  then show ?case
    using Cons.IH [OF cs tail] by simp
qed

lemma dropWhile_all: "list_all P xs \<Longrightarrow> dropWhile P (xs @ ys) = dropWhile P ys"
  by (induction xs) simp_all

lemma trim_whiteSpace:
  assumes "whiteSpaceOnly u" and "whiteSpaceOnly v"
  shows "trim (u @ s @ v) = trim s"
proof -
  have v: "list_all isWhiteSpace (rev v)"
    using assms(2) by (simp add: whiteSpaceOnly_def list_all_iff)
  have front: "dropWhile isWhiteSpace (u @ s @ v) = dropWhile isWhiteSpace (s @ v)"
    using assms(1) by (simp add: whiteSpaceOnly_def dropWhile_all)
  show ?thesis
  proof (cases "list_all isWhiteSpace s")
    case True
    then have both: "dropWhile isWhiteSpace (s @ v) = []" "dropWhile isWhiteSpace s = []"
      using assms(2) by (auto simp: whiteSpaceOnly_def list_all_iff)
    show ?thesis by (simp only: trim_def front both)
  next
    case False
    then obtain x where "x \<in> set s" and "\<not> isWhiteSpace x"
      by (auto simp: list_all_iff)
    then have keep: "dropWhile isWhiteSpace (s @ v) = dropWhile isWhiteSpace s @ v"
      by (simp add: dropWhile_append1)
    show ?thesis
      using v by (simp add: trim_def front keep dropWhile_all)
  qed
qed

lemma cleanResponse_text: "s \<noteq> [] \<Longrightarrow> cleanResponse (Some s) = trim (stripFences s)"
  by (simp add: cleanResponse_def)

text \<open>The cleaned text of a fenced block with white space around it.\<close>

lemma cleanResponse_fenced:
  assumes "payload \<noteq> []" and "whiteSpaceOnly pre" and "\<not> endsWithLineFeed pre"
    and "whiteSpaceOnly post"
  shows "cleanResponse (Some (pre @ fenced payload @ post)) = cleanResponse (Some payload)"
proof -
  have "stripFences (pre @ fenced payload @ post) = pre @ stripFences (fenced payload @ post)"
    using assms(2,3) by (simp add: stripFences_leading whiteSpace_no_backtick)
  also have "\<dots> = pre @ stripFences payload @ post"
    using assms(4) by (simp add: stripFences_fenced whiteSpace_no_backtick whiteSpace_not_json)
  finally have same: "trim (stripFences (pre @ fenced payload @ post)) = trim (stripFences payload)"
    using assms(2,4) by (simp add: trim_whiteSpace)
  have "pre @ fenced payload @ post \<noteq> []"
    by (simp add: fenced_not_empty)
  then have wrapped: "cleanResponse (Some (pre @ fenced payload @ post))
      = trim (stripFences (pre @ fenced payload @ post))"
    by (rule cleanResponse_text)
  have plain: "cleanResponse (Some payload) = trim (stripFences payload)"
    using assms(1) by (rule cleanResponse_text)
  show ?thesis
    by (simp only: wrapped plain same)
qed










subsection \<open>Values\<close>

lemma map_of_setProperty:
  "map_of (setProperty name x ps) k = (if k = name then Some x else map_of ps k)"
  by (induction ps) auto

lemma setProperty_same: "map_of ps name = Some x \<Longrightarrow> setProperty name x ps = ps"
  by (induction ps) (auto split: if_splits)

lemma truthy_spreadWithConcept: "truthy (spreadWithConcept v x)"
  by (simp add: spreadWithConcept_def)

lemma property_spreadWithConcept:
  "property (spreadWithConcept v x) ''spanishConcept'' = x"
  "property (spreadWithConcept (JObject ps) x) k
     = (if k = ''spanishConcept'' then x else property (JObject ps) k)"
  by (simp_all add: spreadWithConcept_def map_of_setProperty)

lemma interpolate_string: "interpolate host (JString s) = Inr s"
  by (simp add: interpolate_def)

lemma truthy_not_null: "truthy v \<Longrightarrow> v \<noteq> JNull"
  by auto

lemma asValue_truthy: "truthy (asValue d)"
  by (simp add: asValue_def)

lemma asValue_property:
  "property (asValue d) ''spanishConcept'' = JString (spanishConcept d)"
  "property (asValue d) ''correctAnswer'' = JString (correctAnswer d)"
  "property (asValue d) ''explanation'' = JString (explanation d)"
  by (simp_all add: asValue_def)

lemma spreadWithConcept_asValue:
  "spreadWithConcept (asValue d) (JString s) = asValue (d\<lparr>spanishConcept := s\<rparr>)"
  by (simp add: spreadWithConcept_def asValue_def)

lemma spreadWithConcept_asValue_same:
  "spreadWithConcept (asValue d) (property (asValue d) ''spanishConcept'') = asValue d"
  by (simp add: asValue_property spreadWithConcept_asValue)

subsection \<open>The sample session, step by step\<close>

lemma ellisPayload_clean: "trim (stripFences ellisPayload) = ellisPayload"
proof -
  have "CHR 0x60 \<notin> set ellisPayload"
    by (simp add: ellisPayload_def)
  then have "stripFences ellisPayload = ellisPayload"
    by (rule stripFences_no_backtick)
  moreover have "trim ellisPayload = ellisPayload"
    by (rule trim_id) (simp_all add: ellisPayload_def isWhiteSpace_def)
  ultimately show ?thesis by simp
qed

lemma ellisPayload_not_empty: "ellisPayload \<noteq> []"
  by (simp add: ellisPayload_def)

lemma ellisReply_clean: "cleanResponse (resultText ellisReply) = ellisPayload"
  using cleanResponse_fenced [of ellisPayload "[]" "[]"]
  by (simp add: ellisReply_def ellisPayload_not_empty whiteSpaceOnly_def endsWithLineFeed_def
      cleanResponse_text ellisPayload_clean)

lemma sampleHost_simps [simp]:
  "JSON_parse sampleHost = sampleParse"
  "ToString sampleHost = jsToString"
  by (simp_all add: sampleHost_def)

lemma ellisReply_settle: "sendMessage_settle sampleHost (Inr ellisReply) = Inr (ellisTurn, None)"
  by (simp add: sendMessage_settle_def ellisReply_clean sampleParse_def) (simp add: ellisReply_def)

lemma proseReply_settle: "sampleParse (cleanResponse (resultText proseReply)) = None"
  by (simp add: proseReply_def cleanResponse_def trim_def isWhiteSpace_def startsWith_def
      sampleParse_def ellisPayload_def)

lemma nullReply_parse: "sampleParse (cleanResponse (resultText nullReply)) = Some JNull"
  by (simp add: nullReply_def cleanResponse_def trim_def isWhiteSpace_def startsWith_def
      sampleParse_def ellisPayload_def)

lemma noTextReply_parse:
  "sampleParse (cleanResponse (resultText noTextReply)) = Some (JObject [])"
  by (simp add: noTextReply_def cleanResponse_def trim_def isWhiteSpace_def startsWith_def
      sampleParse_def ellisPayload_def)

lemma nullReply_settle: "sendMessage_settle sampleHost (Inr nullReply) = Inr (JNull, None)"
  by (simp add: sendMessage_settle_def nullReply_parse) (simp add: nullReply_def)

lemma noTextReply_settle: "sendMessage_settle sampleHost (Inr noTextReply) = Inr (JObject [], None)"
  by (simp add: sendMessage_settle_def noTextReply_parse) (simp add: noTextReply_def)

lemma ellisTurn_fields:
  "truthy ellisTurn"
  "ellisTurn \<noteq> JNull"
  "property ellisTurn ''correctAnswer'' = JString ''Se exige''"
  "property ellisTurn ''spanishConcept'' = JString ''Strict silence is required here.''"
  "property ellisTurn ''explanation'' = JString ''Singular object (silencio) -> Se exige.''"
  "spreadWithConcept ellisTurn (JString ''Strict silence is required here.'') = ellisTurn"
  by (simp_all add: ellisTurn_def asValue_def ellisTurnData_def spreadWithConcept_def)

lemmas step_defs =
  startQuest_def startQuest_resume_def handleEnglishSubmit_def handleEnglishSubmit_resume_def
  handleOptionSelect_def handleOptionSelect_afterDelay_def handleOptionSelect_resume_def
  sendMessage_call_def generateBridgeResponse_call_def generateBridgeResponse_settle_def
  formRendered_def interpolate_string
  ellisReply_settle ellisTurn_fields trim_def isWhiteSpace_def Let_def

lemma conceptWorld_eq:
  "conceptWorld =
     \<lparr> messages = [\<lparr> role = MODEL, msgText = JUndefined, structuredContent = ellisTurn,
                      groundingChunks = None, isCorrect = None, step = Some concept \<rparr>],
       isProcessing = False,
       englishInput = [],
       feedbackMessage = None,
       gameState = \<lparr> status = playing, location = None, currentTurn = 1, maxTurns = 10,
                     activeChallenge = ellisTurn, turnStep = concept \<rparr>,
       chatSession = True,
       pending = Idle,
       requests = [ChatSendMessage ''START_GAME_MIZZOU_EDITION''] \<rparr>"
  by (simp add: conceptWorld_def initialWorld_def TOTAL_TURNS_def step_defs)

lemma grammarWorld_eq:
  "grammarWorld =
     (\<lparr> messages = [\<lparr> role = MODEL, msgText = JUndefined, structuredContent = ellisTurn,
                      groundingChunks = None, isCorrect = None, step = Some concept \<rparr>,
                    \<lparr> role = USER, msgText = JString ''keep quiet'', structuredContent = JUndefined,
                      groundingChunks = None, isCorrect = None, step = Some concept \<rparr>],
       isProcessing = False,
       englishInput = [],
       feedbackMessage = None,
       gameState = \<lparr> status = playing, location = None, currentTurn = 1, maxTurns = 10,
                     activeChallenge = ellisTurn, turnStep = grammar \<rparr>,
       chatSession = True,
       pending = Idle,
       requests = [ChatSendMessage ''START_GAME_MIZZOU_EDITION'',
                   GenerateContent ''keep quiet'' (JString ''Strict silence is required here.'')] \<rparr>)"
  (is "_ = ?rhs")
proof -
  have "grammarWorld =
      run sampleHost [InputChange ''keep quiet'', FormSubmit, BridgeSettled (Inl (Error ''offline''))]
        conceptWorld"
    by (simp add: grammarWorld_def toGrammar_def conceptWorld_def)
  also have "\<dots> = ?rhs"
    by (simp add: conceptWorld_eq step_defs)
  finally show ?thesis .
qed

lemma emptyTurnWorld_eq:
  "emptyTurnWorld =
     \<lparr> messages = [\<lparr> role = MODEL, msgText = JUndefined, structuredContent = JObject [],
                      groundingChunks = None, isCorrect = None, step = Some concept \<rparr>],
       isProcessing = False,
       englishInput = [],
       feedbackMessage = None,
       gameState = \<lparr> status = playing, location = None, currentTurn = 1, maxTurns = 10,
                     activeChallenge = JObject [], turnStep = concept \<rparr>,
       chatSession = True,
       pending = Idle,
       requests = [ChatSendMessage ''START_GAME_MIZZOU_EDITION''] \<rparr>"
  by (simp add: emptyTurnWorld_def initialWorld_def TOTAL_TURNS_def startQuest_def
      startQuest_resume_def sendMessage_call_def noTextReply_settle Let_def)

subsection \<open>Worlds at rest\<close>

lemma quiescent_fire:
  "pending w = Idle \<Longrightarrow> \<not> truthy (activeChallenge (gameState w)) \<Longrightarrow> fire host e w = w"
  by (cases e) (simp_all add: handleEnglishSubmit_def handleOptionSelect_def formRendered_def)

lemma quiescent_run:
  "pending w = Idle \<Longrightarrow> \<not> truthy (activeChallenge (gameState w)) \<Longrightarrow> run host es w = w"
  by (induction es) (simp_all add: quiescent_fire)

subsection \<open>Reachable worlds\<close>

lemma consistent_initial: "consistent initialWorld"
  by (simp add: consistent_def initialWorld_def TOTAL_TURNS_def)

lemma consistent_fire: "consistent w \<Longrightarrow> consistent (fire host e w)"
  by (cases e; cases "pending w")
     (auto simp: consistent_def handler_defs truthy_spreadWithConcept Let_def
           split: option.splits sum.splits)

text \<open>While the rest of a handler is suspended the guards of both handlers fail, so at most
  one handler is ever in flight and the single \<open>pending\<close> slot loses nothing.\<close>

lemma handlers_blocked_while_pending:
  "consistent w \<Longrightarrow> pending w \<noteq> Idle \<Longrightarrow>
     handleEnglishSubmit host w = w \<and> handleOptionSelect host selectedOption w = w"
  by (cases "pending w")
     (auto simp: consistent_def handleEnglishSubmit_def handleOptionSelect_def Let_def)

lemma consistent_run: "consistent w \<Longrightarrow> consistent (run host es w)"
  by (induction es arbitrary: w) (simp_all add: consistent_fire)

lemma consistent_reachable: "consistent (run host es initialWorld)"
  by (simp add: consistent_run consistent_initial)

lemma currentTurn_fire:
  "consistent w \<Longrightarrow> currentTurn (gameState w) \<le> currentTurn (gameState (fire host e w))"
  by (cases e; cases "pending w")
     (auto simp: consistent_def handler_defs Let_def split: option.splits sum.splits)

lemma challengeIffActive_fire:
  "consistent w \<Longrightarrow> challengeIffActive w \<Longrightarrow> \<not> nextTurnRejected host [e] w
    \<Longrightarrow> \<not> nullTurnDelivered host [e] w \<Longrightarrow> challengeIffActive (fire host e w)"
  by (cases e; cases "pending w")
     (auto simp: consistent_def challengeIffActive_def awaitingNextTurn_def awaitingReply_def
           parsesNull_def handler_defs spreadWithConcept_def
           errorTurn_def asValue_def Let_def
           split: option.splits sum.splits)

lemma challengeIffActive_run:
  "consistent w \<Longrightarrow> challengeIffActive w \<Longrightarrow> \<not> nextTurnRejected host es w
    \<Longrightarrow> \<not> nullTurnDelivered host es w \<Longrightarrow> challengeIffActive (run host es w)"
proof (induction es arbitrary: w)
  case Nil
  then show ?case by simp
next
  case (Cons e es)
  have "challengeIffActive (fire host e w)"
    using Cons.prems by (intro challengeIffActive_fire) auto
  then show ?case
    using Cons by (simp add: consistent_fire)
qed

lemma truthyIffActive_fire:
  "consistent w \<Longrightarrow> truthyIffActive w \<Longrightarrow> \<not> nextTurnRejected host [e] w
    \<Longrightarrow> \<not> falsyTurnDelivered host [e] w \<Longrightarrow> truthyIffActive (fire host e w)"
  by (cases e; cases "pending w")
     (auto simp: consistent_def truthyIffActive_def awaitingNextTurn_def awaitingReply_def
           parsesFalsy_def handler_defs truthy_spreadWithConcept
           errorTurn_def asValue_def Let_def
           split: option.splits sum.splits)

lemma truthyIffActive_run:
  "consistent w \<Longrightarrow> truthyIffActive w \<Longrightarrow> \<not> nextTurnRejected host es w
    \<Longrightarrow> \<not> falsyTurnDelivered host es w \<Longrightarrow> truthyIffActive (run host es w)"
proof (induction es arbitrary: w)
  case Nil
  then show ?case by simp
next
  case (Cons e es)
  have "truthyIffActive (fire host e w)"
    using Cons.prems by (intro truthyIffActive_fire) auto
  then show ?case
    using Cons by (simp add: consistent_fire)
qed

lemma active_only_playing:
  "consistent w \<Longrightarrow> activeChallenge (gameState w) \<noteq> JNull \<Longrightarrow> status (gameState w) = playing"
  by (cases "pending w") (auto simp: consistent_def Let_def)

lemma finished_fire:
  assumes "consistent w"
  shows "(status (gameState (fire host e w)) = finished)
     = (status (gameState w) = finished
        \<or> e = TimerFired \<and> awaitingDelay w \<and> maxTurns (gameState w) \<le> currentTurn (gameState w))"
proof (cases "status (gameState w) = finished")
  case True
  then have "pending w = Idle \<and> \<not> truthy (activeChallenge (gameState w))"
    using assms by (auto simp: consistent_def Let_def split: Pending.splits)
  then have "fire host e w = w" by (simp add: quiescent_fire)
  then show ?thesis using True by simp
next
  case False
  then show ?thesis
    using assms
    by (cases e; cases "pending w")
       (auto simp: consistent_def awaitingDelay_def handler_defs Let_def
             split: option.splits sum.splits)
qed

subsection \<open>The flag of the delivered turns\<close>

lemma digits_last: "last (digits n) = digitChar (n mod 10)"
  by (subst digits.simps) simp

lemma digitChar_digit: "m < 10 \<Longrightarrow> digitChar m \<in> set ''0123456789''"
  unfolding digitChar_def by (rule nth_mem) simp

lemma digits_not_flag: "digits n \<noteq> ''isGameOver''"
proof
  assume "digits n = ''isGameOver''"
  then have "last (digits n) = CHR ''r''" by simp
  then have "digitChar (n mod 10) = CHR ''r''" by (simp add: digits_last)
  moreover have "digitChar (n mod 10) \<in> set ''0123456789''"
    by (rule digitChar_digit) simp
  ultimately show False by simp
qed

lemma removeProperty_absent: "name \<notin> fst ` set ps \<Longrightarrow> removeProperty name ps = ps"
  by (induction ps) (auto simp: removeProperty_def)

lemma removeProperty_indices: "removeProperty ''isGameOver'' (zip (map digits ns) xs) = zip (map digits ns) xs"
proof (rule removeProperty_absent)
  show "''isGameOver'' \<notin> fst ` set (zip (map digits ns) xs)"
  proof
    assume "''isGameOver'' \<in> fst ` set (zip (map digits ns) xs)"
    then obtain p where "p \<in> set (zip (map digits ns) xs)" and "fst p = ''isGameOver''"
      by auto
    then have "''isGameOver'' \<in> set (map digits ns)"
      by (metis prod.collapse set_zip_leftD)
    then obtain n where "digits n = ''isGameOver''"
      by auto
    then show False by (simp add: digits_not_flag)
  qed
qed

lemma removeProperty_Nil: "removeProperty name [] = []"
  by (simp add: removeProperty_def)

lemma ownProperties_eraseFlag:
  "ownProperties (eraseFlag v) = removeProperty ''isGameOver'' (ownProperties v)"
  by (cases v) (simp_all add: removeProperty_indices removeProperty_Nil)

lemma removeProperty_setProperty:
  "name \<noteq> k \<Longrightarrow> removeProperty k (setProperty name x ps) = setProperty name x (removeProperty k ps)"
  by (induction ps) (auto simp: removeProperty_def)

lemma removeProperty_setProperty_same:
  "removeProperty k (setProperty k x ps) = removeProperty k ps"
  by (induction ps) (auto simp: removeProperty_def)

lemma removeProperty_idem: "removeProperty k (removeProperty k ps) = removeProperty k ps"
  by (simp add: removeProperty_def)

lemma map_of_removeProperty: "k \<noteq> name \<Longrightarrow> map_of (removeProperty name ps) k = map_of ps k"
  by (induction ps) (auto simp: removeProperty_def)

lemma eraseFlag_simps [simp]:
  "eraseFlag (eraseFlag v) = eraseFlag v"
  "eraseFlag (withFlag flag v) = eraseFlag v"
  "truthy (eraseFlag v) = truthy v"
  "(eraseFlag v = JNull) = (v = JNull)"
  "property (eraseFlag v) ''correctAnswer'' = property v ''correctAnswer''"
  "property (eraseFlag v) ''explanation'' = property v ''explanation''"
  "property (eraseFlag v) ''spanishConcept'' = property v ''spanishConcept''"
  "eraseFlag (spreadWithConcept v x) = spreadWithConcept (eraseFlag v) x"
proof -
  show "eraseFlag (eraseFlag v) = eraseFlag v"
    by (cases v) (simp_all add: removeProperty_idem)
  show "eraseFlag (withFlag flag v) = eraseFlag v"
    by (cases flag; cases v) (simp_all add: removeProperty_idem removeProperty_setProperty_same)
  show "truthy (eraseFlag v) = truthy v"
    by (cases v) simp_all
  show "(eraseFlag v = JNull) = (v = JNull)"
    by (cases v) simp_all
  show "property (eraseFlag v) ''correctAnswer'' = property v ''correctAnswer''"
    by (cases v) (simp_all add: map_of_removeProperty)
  show "property (eraseFlag v) ''explanation'' = property v ''explanation''"
    by (cases v) (simp_all add: map_of_removeProperty)
  show "property (eraseFlag v) ''spanishConcept'' = property v ''spanishConcept''"
    by (cases v) (simp_all add: map_of_removeProperty)
  show "eraseFlag (spreadWithConcept v x) = spreadWithConcept (eraseFlag v) x"
    by (simp add: spreadWithConcept_def ownProperties_eraseFlag removeProperty_setProperty)
qed

lemma eraseMessage_simps [simp]:
  "eraseMessage (eraseMessage m) = eraseMessage m"
  "eraseMessage \<circ> eraseMessage = eraseMessage"
  "eraseMessage \<lparr> role = r, msgText = t, structuredContent = sc, groundingChunks = gc,
                  isCorrect = ic, step = st \<rparr> =
     \<lparr> role = r, msgText = t, structuredContent = eraseFlag sc, groundingChunks = gc,
       isCorrect = ic, step = st \<rparr>"
  by (simp_all add: eraseMessage_def fun_eq_iff)

lemma reflag_simps [simp]:
  "ToString (reflag f host) = ToString host"
  "JSON_parse (reflag f host) s = map_option (withFlag (f s)) (JSON_parse host s)"
  "interpolate (reflag f host) v = interpolate host v"
  by (simp_all add: reflag_def interpolate_def split: JSValue.split)

lemma eraseWorld_fire_state: "eraseWorld (fire host e (eraseWorld w)) = eraseWorld (fire host e w)"
  by (cases e; cases "pending w")
     (auto simp: eraseWorld_def eraseGameState_def handler_defs Let_def
           split: option.splits sum.splits)

lemma eraseWorld_fire_parse: "eraseWorld (fire (reflag f host) e w) = eraseWorld (fire host e w)"
  by (cases e; cases "pending w")
     (auto simp: eraseWorld_def eraseGameState_def handler_defs Let_def
           split: option.splits sum.splits)

lemma eraseWorld_run:
  "eraseWorld w1 = eraseWorld w2
    \<Longrightarrow> eraseWorld (run (reflag f host) es w1) = eraseWorld (run host es w2)"
proof (induction es arbitrary: w1 w2)
  case Nil
  then show ?case by simp
next
  case (Cons e es)
  have "eraseWorld (fire (reflag f host) e w1) = eraseWorld (fire host e (eraseWorld w1))"
    by (simp add: eraseWorld_fire_parse eraseWorld_fire_state)
  also have "\<dots> = eraseWorld (fire host e w2)"
    by (simp add: Cons.prems eraseWorld_fire_state)
  finally show ?case using Cons.IH by simp
qed

subsection \<open>The sample session up to the last stop\<close>

lemma atStop_conceptWorld: "atStop 1 conceptWorld"
  by (simp add: atStop_def conceptWorld_eq)

lemma atStop_playTurn: "atStop n w \<Longrightarrow> n < 10 \<Longrightarrow> atStop (n + 1) (run sampleHost playTurn w)"
  by (simp add: atStop_def playTurn_def step_defs)

lemma atStop_replicate:
  "atStop n w \<Longrightarrow> n + int k \<le> 10 \<Longrightarrow> atStop (n + int k) (run sampleHost (concat (replicate k playTurn)) w)"
proof (induction k arbitrary: n w)
  case 0
  then show ?case by simp
next
  case (Suc k)
  have "atStop (n + 1) (run sampleHost playTurn w)"
    using Suc.prems by (intro atStop_playTurn) auto
  then have "atStop (n + 1 + int k) (run sampleHost (concat (replicate k playTurn)) (run sampleHost playTurn w))"
    using Suc.prems by (intro Suc.IH) auto
  then show ?case by (simp add: run_append add.commute add.left_commute)
qed

lemma atStop_answer:
  assumes "atStop n w"
  defines "v \<equiv> run sampleHost
     [InputChange ''keep quiet'', FormSubmit, BridgeSettled (Inl (Error ''offline''))] w"
  shows "activeChallenge (gameState v) = ellisTurn \<and> \<not> isProcessing v
   \<and> currentTurn (gameState v) = n \<and> maxTurns (gameState v) = 10
   \<and> turnStep (gameState v) = grammar \<and> status (gameState v) = playing"
  using assms(1) unfolding v_def
  by (simp add: atStop_def step_defs)

lemma lastTurnWorld_facts:
  "activeChallenge (gameState lastTurnWorld) = ellisTurn \<and> \<not> isProcessing lastTurnWorld
   \<and> currentTurn (gameState lastTurnWorld) = 10 \<and> maxTurns (gameState lastTurnWorld) = 10
   \<and> turnStep (gameState lastTurnWorld) = grammar \<and> status (gameState lastTurnWorld) = playing"
proof -
  have "atStop (1 + int 9) (run sampleHost (concat (replicate 9 playTurn)) conceptWorld)"
    using atStop_conceptWorld by (rule atStop_replicate) simp
  then have a: "atStop 10 (run sampleHost (concat (replicate 9 playTurn)) conceptWorld)"
    by simp
  have e: "lastTurnWorld =
    run sampleHost [InputChange ''keep quiet'', FormSubmit, BridgeSettled (Inl (Error ''offline''))]
      (run sampleHost (concat (replicate 9 playTurn)) conceptWorld)"
    by (simp only: lastTurnWorld_def toLastTurn_def run_append conceptWorld_def)
  show ?thesis
    unfolding e by (rule atStop_answer [OF a])
qed

section \<open>The claims\<close>

text \<open>
  C7. A phase-1 submission whose text is empty, or white space only, after trimming is
  rejected: \<open>handleEnglishSubmit\<close> returns at its guard, so the world after the submission is
  the world before it. Phase, active challenge, turn counter, message history and the list of
  requests issued are all unchanged, and no request is sent.
\<close>

theorem blank_submission_ignored:
  "trim (englishInput w) = [] \<Longrightarrow> fire host FormSubmit w = w"
  by (simp add: handleEnglishSubmit_def)

text \<open>C7 on the sample session: three spaces typed at the first stop, then submitted.\<close>

theorem blank_submission_ignored_witness:
  "trim (englishInput (fire sampleHost (InputChange ''   '') conceptWorld)) = []
   \<and> fire sampleHost FormSubmit (fire sampleHost (InputChange ''   '') conceptWorld)
       = fire sampleHost (InputChange ''   '') conceptWorld"
proof -
  have blank: "trim (englishInput (fire sampleHost (InputChange ''   '') conceptWorld)) = []"
    by (simp add: conceptWorld_eq formRendered_def ellisTurn_fields trim_def isWhiteSpace_def)
  show ?thesis
    by (rule conjI [OF blank blank_submission_ignored [OF blank]])
qed

text \<open>
  C4. In a world with an active challenge \<open>ch\<close> and no handler in flight (in particular in
  every active grammar-phase state), selecting an option that is not strictly equal to the
  \<open>correctAnswer\<close> of \<open>ch\<close> appends exactly one user message marked incorrect and leaves
  \<open>gameState\<close> (phase, active challenge, turn counter), the suspended handler and the list of
  requests as they are. The feedback becomes the explanation of \<open>ch\<close> between \<open>Incorrect.\<close>
  and \<open>Try again!\<close>, and nothing else changes: so for every explanation that is a string, and
  for every other value that the template literal can convert.
\<close>

theorem wrong_choice_keeps_turn:
  assumes "activeChallenge (gameState w) = ch"
    and "truthy ch"
    and "\<not> isProcessing w"
    and "\<not> strictEquals selectedOption (property ch ''correctAnswer'')"
  shows "gameState (fire host (OptionClick selectedOption) w) = gameState w
     \<and> messages (fire host (OptionClick selectedOption) w)
         = messages w @
             [\<lparr> role = USER, msgText = selectedOption, structuredContent = JUndefined,
                groundingChunks = None, isCorrect = Some False, step = Some grammar \<rparr>]
     \<and> length (messages (fire host (OptionClick selectedOption) w)) = length (messages w) + 1
     \<and> requests (fire host (OptionClick selectedOption) w) = requests w
     \<and> pending (fire host (OptionClick selectedOption) w) = pending w
     \<and> (\<forall>shown. interpolate host (property ch ''explanation'') = Inr shown \<longrightarrow>
           fire host (OptionClick selectedOption) w =
             w\<lparr>messages := messages w @
                  [\<lparr> role = USER, msgText = selectedOption, structuredContent = JUndefined,
                     groundingChunks = None, isCorrect = Some False, step = Some grammar \<rparr>],
               feedbackMessage := Some (''Incorrect. '' @ shown @ '' Try again!'', fb_error)\<rparr>)
     \<and> (\<forall>ex. property ch ''explanation'' = JString ex \<longrightarrow>
           interpolate host (property ch ''explanation'') = Inr ex)"
  using assms
  by (auto simp: handleOptionSelect_def interpolate_string Let_def split: sum.splits)

text \<open>C4 on the sample session: \<open>Se busca\<close> chosen at the first stop.\<close>

theorem wrong_choice_keeps_turn_witness:
  "truthy ellisTurn
   \<and> \<not> isProcessing grammarWorld
   \<and> \<not> strictEquals (JString ''Se busca'') (property ellisTurn ''correctAnswer'')
   \<and> property ellisTurn ''explanation'' = JString ''Singular object (silencio) -> Se exige.''
   \<and> gameState (fire sampleHost (OptionClick (JString ''Se busca'')) grammarWorld)
        = gameState grammarWorld
   \<and> requests (fire sampleHost (OptionClick (JString ''Se busca'')) grammarWorld)
        = requests grammarWorld
   \<and> feedbackMessage (fire sampleHost (OptionClick (JString ''Se busca'')) grammarWorld)
        = Some (''Incorrect. Singular object (silencio) -> Se exige. Try again!'', fb_error)"
proof -
  have h1: "activeChallenge (gameState grammarWorld) = ellisTurn"
    and h3: "\<not> isProcessing grammarWorld"
    by (simp_all add: grammarWorld_eq)
  have h2: "truthy ellisTurn"
    and h4: "\<not> strictEquals (JString ''Se busca'') (property ellisTurn ''correctAnswer'')"
    and ex: "property ellisTurn ''explanation'' = JString ''Singular object (silencio) -> Se exige.''"
    by (simp_all add: ellisTurn_fields)
  note c = wrong_choice_keeps_turn [OF h1 h2 h3 h4, of sampleHost]
  have shown: "interpolate sampleHost (property ellisTurn ''explanation'')
      = Inr ''Singular object (silencio) -> Se exige.''"
    using c ex by blast
  have "fire sampleHost (OptionClick (JString ''Se busca'')) grammarWorld =
      grammarWorld\<lparr>messages := messages grammarWorld @
          [\<lparr> role = USER, msgText = JString ''Se busca'', structuredContent = JUndefined,
             groundingChunks = None, isCorrect = Some False, step = Some grammar \<rparr>],
        feedbackMessage :=
          Some (''Incorrect. '' @ ''Singular object (silencio) -> Se exige.'' @ '' Try again!'',
                fb_error)\<rparr>"
    using c shown by blast
  then have "feedbackMessage (fire sampleHost (OptionClick (JString ''Se busca'')) grammarWorld)
        = Some (''Incorrect. Singular object (silencio) -> Se exige. Try again!'', fb_error)"
    by simp
  then show ?thesis
    using h2 h3 h4 ex c by blast
qed

text \<open>
  C3. After an accepted phase-1 submission (active challenge \<open>ch\<close>, no handler in flight, text
  not blank), however the bridge request settles, the phase becomes \<open>grammar\<close>. If the request
  is rejected, or the reply carries no text, \<open>generateBridgeResponse\<close> returns the target
  context and \<open>spanishConcept\<close> is set to the value it had: a challenge of the declared type
  is the one before the bridge. The request is issued with the raw text and the current
  \<open>spanishConcept\<close> whenever the prompt can be built (always so when it is a string); if it
  then succeeds, the text \<open>generateBridgeResponse\<close> returns (the reply, trimmed) replaces
  \<open>spanishConcept\<close>.
\<close>

theorem bridge_outcome_sets_context:
  fixes host w ch
  defines "context \<equiv> property ch ''spanishConcept''"
  assumes "activeChallenge (gameState w) = ch"
    and "truthy ch"
    and "\<not> isProcessing w"
    and "trim (englishInput w) \<noteq> []"
  shows "(\<forall>r. turnStep (gameState (run host [FormSubmit, BridgeSettled r] w)) = grammar)
     \<and> (\<forall>err. generateBridgeResponse_settle context (Inl err) = Inr context
            \<and> activeChallenge (gameState (run host [FormSubmit, BridgeSettled (Inl err)] w))
                = spreadWithConcept ch context)
     \<and> activeChallenge (gameState (run host [FormSubmit, BridgeSettled (Inr None)] w))
         = spreadWithConcept ch context
     \<and> property (spreadWithConcept ch context) ''spanishConcept'' = context
     \<and> (\<forall>d. ch = asValue d \<longrightarrow> spreadWithConcept ch context = ch)
     \<and> (\<forall>shown. interpolate host context = Inr shown \<longrightarrow>
           requests (fire host FormSubmit w)
             = requests w @ [GenerateContent (englishInput w) context]
           \<and> (\<forall>t. generateBridgeResponse_settle context (Inr (Some t)) = Inr (JString (trim t))
                  \<and> activeChallenge
                       (gameState (run host [FormSubmit, BridgeSettled (Inr (Some t))] w))
                      = spreadWithConcept ch (JString (trim t))))
     \<and> (\<forall>c. context = JString c \<longrightarrow> interpolate host context = Inr c)
     \<and> (\<forall>d s. ch = asValue d \<longrightarrow>
           spreadWithConcept ch (JString s) = asValue (d\<lparr>spanishConcept := s\<rparr>))"
proof -
  have typed: "\<forall>d. ch = asValue d \<longrightarrow> spreadWithConcept ch context = ch"
    unfolding context_def by (simp add: spreadWithConcept_asValue_same)
  have rest: "(\<forall>r. turnStep (gameState (run host [FormSubmit, BridgeSettled r] w)) = grammar)
     \<and> (\<forall>err. generateBridgeResponse_settle context (Inl err) = Inr context
            \<and> activeChallenge (gameState (run host [FormSubmit, BridgeSettled (Inl err)] w))
                = spreadWithConcept ch context)
     \<and> activeChallenge (gameState (run host [FormSubmit, BridgeSettled (Inr None)] w))
         = spreadWithConcept ch context
     \<and> (\<forall>shown. interpolate host context = Inr shown \<longrightarrow>
           requests (fire host FormSubmit w)
             = requests w @ [GenerateContent (englishInput w) context]
           \<and> (\<forall>t. generateBridgeResponse_settle context (Inr (Some t)) = Inr (JString (trim t))
                  \<and> activeChallenge
                       (gameState (run host [FormSubmit, BridgeSettled (Inr (Some t))] w))
                      = spreadWithConcept ch (JString (trim t))))"
    using assms(2-5) unfolding context_def
    by (cases "interpolate host (property ch ''spanishConcept'')")
       (auto simp: handleEnglishSubmit_def handleEnglishSubmit_resume_def
          generateBridgeResponse_call_def generateBridgeResponse_settle_def Let_def
          split: sum.splits option.splits)
  show ?thesis
    using typed rest
    by (simp add: property_spreadWithConcept interpolate_string spreadWithConcept_asValue)
qed

text \<open>C3 on the sample session: \<open>keep quiet\<close> submitted at the first stop, the bridge request
  once failing and once answered.\<close>

theorem bridge_outcome_sets_context_witness:
  "activeChallenge (gameState (fire sampleHost (InputChange ''keep quiet'') conceptWorld))
     = ellisTurn
   \<and> truthy ellisTurn
   \<and> \<not> isProcessing (fire sampleHost (InputChange ''keep quiet'') conceptWorld)
   \<and> trim (englishInput (fire sampleHost (InputChange ''keep quiet'') conceptWorld)) \<noteq> []
   \<and> turnStep (gameState (run sampleHost [FormSubmit, BridgeSettled (Inl (Error ''offline''))]
        (fire sampleHost (InputChange ''keep quiet'') conceptWorld))) = grammar
   \<and> activeChallenge (gameState (run sampleHost [FormSubmit, BridgeSettled (Inl (Error ''offline''))]
        (fire sampleHost (InputChange ''keep quiet'') conceptWorld))) = ellisTurn
   \<and> activeChallenge (gameState
        (run sampleHost [FormSubmit, BridgeSettled (Inr (Some '' Yes, silence is required. ''))]
          (fire sampleHost (InputChange ''keep quiet'') conceptWorld)))
       = asValue (ellisTurnData\<lparr>spanishConcept := ''Yes, silence is required.''\<rparr>)"
proof -
  let ?w = "fire sampleHost (InputChange ''keep quiet'') conceptWorld"
  have h1: "activeChallenge (gameState ?w) = ellisTurn"
    and h3: "\<not> isProcessing ?w"
    and h4: "trim (englishInput ?w) \<noteq> []"
    by (simp_all add: conceptWorld_eq formRendered_def ellisTurn_fields trim_def isWhiteSpace_def)
  have h2: "truthy ellisTurn"
    by (simp add: ellisTurn_fields)
  note c = bridge_outcome_sets_context [OF h1 h2 h3 h4, of sampleHost]
  have t: "trim '' Yes, silence is required. '' = ''Yes, silence is required.''"
    by (simp add: trim_def isWhiteSpace_def)
  have typed: "ellisTurn = asValue ellisTurnData"
    by (simp add: ellisTurn_def)
  have shown: "interpolate sampleHost (property ellisTurn ''spanishConcept'')
      = Inr ''Strict silence is required here.''"
    by (simp add: ellisTurn_fields interpolate_string)
  have same: "spreadWithConcept ellisTurn (property ellisTurn ''spanishConcept'') = ellisTurn"
    using c typed by blast
  have failed: "activeChallenge (gameState
        (run sampleHost [FormSubmit, BridgeSettled (Inl (Error ''offline''))] ?w)) = ellisTurn"
    using c same by metis
  have "activeChallenge (gameState
        (run sampleHost [FormSubmit, BridgeSettled (Inr (Some '' Yes, silence is required. ''))] ?w))
       = spreadWithConcept ellisTurn (JString (trim '' Yes, silence is required. ''))"
    using c shown by blast
  moreover have "spreadWithConcept ellisTurn (JString ''Yes, silence is required.'')
      = asValue (ellisTurnData\<lparr>spanishConcept := ''Yes, silence is required.''\<rparr>)"
    using c typed by blast
  ultimately have answered: "activeChallenge (gameState
        (run sampleHost [FormSubmit, BridgeSettled (Inr (Some '' Yes, silence is required. ''))] ?w))
       = asValue (ellisTurnData\<lparr>spanishConcept := ''Yes, silence is required.''\<rparr>)"
    by (simp only: t)
  have phase: "turnStep (gameState
        (run sampleHost [FormSubmit, BridgeSettled (Inl (Error ''offline''))] ?w)) = grammar"
    using c by blast
  show ?thesis
    using h1 h2 h3 h4 phase failed answered by blast
qed

text \<open>
  C5. In a world with an active challenge \<open>ch\<close>, no handler in flight and the turn counter at
  or beyond \<open>maxTurns\<close>, choosing an option strictly equal to the \<open>correctAnswer\<close> of \<open>ch\<close>
  issues no request at the click; when the pacing timer fires the status becomes \<open>finished\<close>,
  still with no request issued; and from then on no event changes the world, so no request is
  ever issued again.
\<close>

theorem last_turn_correct_choice_finishes:
  assumes "activeChallenge (gameState w) = ch"
    and "truthy ch"
    and "\<not> isProcessing w"
    and "strictEquals selectedOption (property ch ''correctAnswer'')"
    and "maxTurns (gameState w) \<le> currentTurn (gameState w)"
  shows "requests (fire host (OptionClick selectedOption) w) = requests w
     \<and> status (gameState (run host [OptionClick selectedOption, TimerFired] w)) = finished
     \<and> requests (run host [OptionClick selectedOption, TimerFired] w) = requests w
     \<and> (\<forall>es. run host es (run host [OptionClick selectedOption, TimerFired] w)
              = run host [OptionClick selectedOption, TimerFired] w)"
proof -
  let ?v = "run host [OptionClick selectedOption, TimerFired] w"
  have click: "requests (fire host (OptionClick selectedOption) w) = requests w"
    using assms by (simp add: handleOptionSelect_def Let_def)
  have rest: "pending ?v = Idle \<and> \<not> truthy (activeChallenge (gameState ?v))
      \<and> status (gameState ?v) = finished \<and> requests ?v = requests w"
    using assms by (simp add: handleOptionSelect_def handleOptionSelect_afterDelay_def Let_def)
  then have "\<forall>es. run host es ?v = ?v"
    by (simp add: quiescent_run)
  then show ?thesis
    using click rest by blast
qed

text \<open>C5 on the sample session: \<open>Se exige\<close> chosen at the tenth stop, and three more events
  after the end of the game.\<close>

theorem last_turn_correct_choice_finishes_witness:
  "activeChallenge (gameState lastTurnWorld) = ellisTurn
   \<and> truthy ellisTurn
   \<and> \<not> isProcessing lastTurnWorld
   \<and> strictEquals (JString ''Se exige'') (property ellisTurn ''correctAnswer'')
   \<and> maxTurns (gameState lastTurnWorld) \<le> currentTurn (gameState lastTurnWorld)
   \<and> status (gameState (run sampleHost [OptionClick (JString ''Se exige''), TimerFired] lastTurnWorld))
        = finished
   \<and> requests (run sampleHost [OptionClick (JString ''Se exige''), TimerFired] lastTurnWorld)
        = requests lastTurnWorld
   \<and> run sampleHost [OptionClick (JString ''Se exige''), ChatSettled (Inr ellisReply), FormSubmit]
        (run sampleHost [OptionClick (JString ''Se exige''), TimerFired] lastTurnWorld)
        = run sampleHost [OptionClick (JString ''Se exige''), TimerFired] lastTurnWorld"
proof -
  have h1: "activeChallenge (gameState lastTurnWorld) = ellisTurn"
    and h3: "\<not> isProcessing lastTurnWorld"
    and h5: "maxTurns (gameState lastTurnWorld) \<le> currentTurn (gameState lastTurnWorld)"
    using lastTurnWorld_facts by simp_all
  have h2: "truthy ellisTurn"
    and h4: "strictEquals (JString ''Se exige'') (property ellisTurn ''correctAnswer'')"
    by (simp_all add: ellisTurn_fields)
  note c = last_turn_correct_choice_finishes [OF h1 h2 h3 h4 h5, of sampleHost]
  show ?thesis
    using h1 h2 h3 h4 h5 c by blast
qed

text \<open>
  C6. In a reachable world with an active challenge \<open>ch\<close>, no handler in flight and the turn
  counter below \<open>maxTurns\<close>, choosing an option strictly equal to the \<open>correctAnswer\<close> of \<open>ch\<close>
  clears the active challenge at the click without a request; when the pacing timer fires the
  turn counter grows by one and the request \<open>NEXT_TURN_n\<close> for the new turn is sent, the
  challenge still cleared; and when the reply arrives the value parsed from it (the
  placeholder if it does not parse) becomes the active challenge, the phase is \<open>concept\<close>, and
  the counter keeps its new value.
\<close>

theorem correct_choice_loads_next_turn:
  fixes host es ch selectedOption result
  defines "w \<equiv> run host es initialWorld"
  defines "pick \<equiv> OptionClick selectedOption"
  assumes "activeChallenge (gameState w) = ch"
    and "truthy ch"
    and "\<not> isProcessing w"
    and "strictEquals selectedOption (property ch ''correctAnswer'')"
    and "currentTurn (gameState w) < maxTurns (gameState w)"
  shows "activeChallenge (gameState (fire host pick w)) = JNull
     \<and> requests (fire host pick w) = requests w
     \<and> currentTurn (gameState (fire host pick w)) = currentTurn (gameState w)
     \<and> currentTurn (gameState (run host [pick, TimerFired] w)) = currentTurn (gameState w) + 1
     \<and> requests (run host [pick, TimerFired] w)
         = requests w @ [ChatSendMessage (''NEXT_TURN_'' @ numberToString (currentTurn (gameState w) + 1))]
     \<and> activeChallenge (gameState (run host [pick, TimerFired] w)) = JNull
     \<and> activeChallenge (gameState (run host [pick, TimerFired, ChatSettled (Inr result)] w))
         = (case JSON_parse host (cleanResponse (resultText result)) of
              Some v \<Rightarrow> v | None \<Rightarrow> errorTurn)
     \<and> turnStep (gameState (run host [pick, TimerFired, ChatSettled (Inr result)] w)) = concept
     \<and> currentTurn (gameState (run host [pick, TimerFired, ChatSettled (Inr result)] w))
         = currentTurn (gameState w) + 1
     \<and> status (gameState (run host [pick, TimerFired, ChatSettled (Inr result)] w)) = playing
     \<and> requests (run host [pick, TimerFired, ChatSettled (Inr result)] w)
         = requests (run host [pick, TimerFired] w)"
proof -
  have "consistent w"
    unfolding w_def by (rule consistent_reachable)
  then have session: "chatSession w" and active: "status (gameState w) = playing"
    using assms(3-5) by (auto simp: consistent_def Let_def split: Pending.splits)
  show ?thesis
    using assms(3-7) session active unfolding pick_def
    by (simp add: handleOptionSelect_def handleOptionSelect_afterDelay_def sendMessage_call_def
        handleOptionSelect_resume_def sendMessage_settle_def Let_def split: option.split)
qed

text \<open>C6 on the sample session: \<open>Se exige\<close> chosen at the first stop, the next turn arriving
  in a fenced block.\<close>

theorem correct_choice_loads_next_turn_witness:
  "activeChallenge (gameState grammarWorld) = ellisTurn
   \<and> truthy ellisTurn
   \<and> \<not> isProcessing grammarWorld
   \<and> strictEquals (JString ''Se exige'') (property ellisTurn ''correctAnswer'')
   \<and> currentTurn (gameState grammarWorld) < maxTurns (gameState grammarWorld)
   \<and> activeChallenge (gameState (fire sampleHost (OptionClick (JString ''Se exige'')) grammarWorld))
       = JNull
   \<and> currentTurn (gameState
        (run sampleHost [OptionClick (JString ''Se exige''), TimerFired] grammarWorld)) = 2
   \<and> requests (run sampleHost [OptionClick (JString ''Se exige''), TimerFired] grammarWorld)
       = [ChatSendMessage ''START_GAME_MIZZOU_EDITION'',
          GenerateContent ''keep quiet'' (JString ''Strict silence is required here.''),
          ChatSendMessage ''NEXT_TURN_2'']
   \<and> activeChallenge (gameState
        (run sampleHost [OptionClick (JString ''Se exige''), TimerFired, ChatSettled (Inr ellisReply)]
           grammarWorld)) = ellisTurn
   \<and> turnStep (gameState
        (run sampleHost [OptionClick (JString ''Se exige''), TimerFired, ChatSettled (Inr ellisReply)]
           grammarWorld)) = concept"
proof -
  have h1: "activeChallenge (gameState grammarWorld) = ellisTurn"
    and h3: "\<not> isProcessing grammarWorld"
    and h5: "currentTurn (gameState grammarWorld) < maxTurns (gameState grammarWorld)"
    by (simp_all add: grammarWorld_eq)
  have h2: "truthy ellisTurn"
    and h4: "strictEquals (JString ''Se exige'') (property ellisTurn ''correctAnswer'')"
    by (simp_all add: ellisTurn_fields)
  have n: "currentTurn (gameState grammarWorld) + 1 = 2"
    and r: "requests grammarWorld = [ChatSendMessage ''START_GAME_MIZZOU_EDITION'',
          GenerateContent ''keep quiet'' (JString ''Strict silence is required here.'')]"
    by (simp_all add: grammarWorld_eq)
  have d: "numberToString 2 = ''2''"
    by (simp add: numberToString_def digitChar_def digits.simps)
  have p: "JSON_parse sampleHost (cleanResponse (resultText ellisReply)) = Some ellisTurn"
    by (simp add: ellisReply_clean sampleParse_def)
  note c = correct_choice_loads_next_turn
    [where host = sampleHost and es = toGrammar and ch = ellisTurn
       and selectedOption = "JString ''Se exige''" and result = ellisReply,
     folded grammarWorld_def, OF h1 h2 h3 h4 h5, unfolded n d r p]
  show ?thesis
    using h1 h2 h3 h5 c by (simp add: ellisTurn_fields)
qed

text \<open>
  C9. If the initial load throws, because the chat request is rejected or because no chat
  session could be created, the status is \<open>error\<close>, there is no active challenge, the message
  history is empty (no challenge was recorded), and no event changes the world afterwards:
  nothing is retried.
\<close>

theorem failed_start_is_terminal:
  assumes "w = run host [Mount True, ChatSettled (Inl err)] initialWorld
     \<or> w = run host [Mount False] initialWorld"
  shows "status (gameState w) = error \<and> activeChallenge (gameState w) = JNull \<and> messages w = []
     \<and> (\<forall>es. run host es w = w)"
proof -
  have "pending w = Idle \<and> status (gameState w) = error \<and> activeChallenge (gameState w) = JNull
      \<and> messages w = []"
    using assms
    by (auto simp: initialWorld_def startQuest_def startQuest_resume_def sendMessage_call_def
        sendMessage_settle_def Let_def)
  then show ?thesis
    by (simp add: quiescent_run)
qed

text \<open>C9 on the sample session: the first request is rejected, and later events find the
  world as the failure left it, with the one request of the start.\<close>

theorem failed_start_is_terminal_witness:
  "status (gameState (run sampleHost [Mount True, ChatSettled (Inl (Error ''network down''))]
      initialWorld)) = error
   \<and> messages (run sampleHost [Mount True, ChatSettled (Inl (Error ''network down''))]
      initialWorld) = []
   \<and> run sampleHost [ChatSettled (Inr ellisReply), InputChange ''keep quiet'', FormSubmit,
        OptionClick (JString ''Se exige''), TimerFired, Mount True]
       (run sampleHost [Mount True, ChatSettled (Inl (Error ''network down''))] initialWorld)
      = run sampleHost [Mount True, ChatSettled (Inl (Error ''network down''))] initialWorld"
proof -
  have h: "run sampleHost [Mount True, ChatSettled (Inl (Error ''network down''))] initialWorld
         = run sampleHost [Mount True, ChatSettled (Inl (Error ''network down''))] initialWorld
     \<or> run sampleHost [Mount True, ChatSettled (Inl (Error ''network down''))] initialWorld
         = run sampleHost [Mount False] initialWorld"
    by (rule disjI1) (rule refl)
  note c = failed_start_is_terminal [OF h]
  show ?thesis
    using c by blast
qed

text \<open>
  C2. For every sequence of events from the initial world, the turn counter starts at 1, is
  at least 1 and at most \<open>maxTurns\<close> (which stays \<open>TOTAL_TURNS\<close>) in the world reached, and no
  further event makes it smaller.
\<close>

theorem currentTurn_monotone_and_bounded:
  "currentTurn (gameState initialWorld) = 1
   \<and> 1 \<le> currentTurn (gameState (run host es initialWorld))
   \<and> currentTurn (gameState (run host es initialWorld))
       \<le> maxTurns (gameState (run host es initialWorld))
   \<and> maxTurns (gameState (run host es initialWorld)) = TOTAL_TURNS
   \<and> currentTurn (gameState (run host es initialWorld))
       \<le> currentTurn (gameState (fire host e (run host es initialWorld)))"
proof -
  have c: "consistent (run host es initialWorld)"
    by (rule consistent_reachable)
  then have "1 \<le> currentTurn (gameState (run host es initialWorld))
    \<and> currentTurn (gameState (run host es initialWorld))
        \<le> maxTurns (gameState (run host es initialWorld))
    \<and> maxTurns (gameState (run host es initialWorld)) = TOTAL_TURNS"
    by (simp add: consistent_def Let_def)
  moreover have "currentTurn (gameState initialWorld) = 1"
    by (simp add: initialWorld_def)
  ultimately show ?thesis
    using currentTurn_fire [OF c] by simp
qed

text \<open>C2 on the sample session: at the tenth stop the counter is 10, and the correct answer
  there does not move it.\<close>

theorem currentTurn_monotone_and_bounded_witness:
  "currentTurn (gameState lastTurnWorld) \<le> maxTurns (gameState lastTurnWorld)
   \<and> maxTurns (gameState lastTurnWorld) = TOTAL_TURNS
   \<and> currentTurn (gameState lastTurnWorld)
       \<le> currentTurn (gameState (fire sampleHost (OptionClick (JString ''Se exige'')) lastTurnWorld))"
  using currentTurn_monotone_and_bounded
    [of sampleHost toLastTurn "OptionClick (JString ''Se exige'')", folded lastTurnWorld_def]
  by blast

text \<open>
  C10. The controller never reads \<open>isGameOver\<close>. Let the parser set that property of every
  object it delivers to any value, or remove it, at will (\<open>reflag f\<close>): after the same events
  the world is the same up to the properties of that name stored in it, and so is the status.
  In a reachable world an event makes the status \<open>finished\<close> exactly when it already is, or
  when the event is the pacing timer of a correct answer and the turn counter has reached
  \<open>maxTurns\<close>.
\<close>

theorem isGameOver_never_read:
  "eraseWorld (run (reflag f host) es initialWorld) = eraseWorld (run host es initialWorld)
   \<and> status (gameState (run (reflag f host) es initialWorld))
       = status (gameState (run host es initialWorld))
   \<and> (status (gameState (fire host e (run host es initialWorld))) = finished)
       = (status (gameState (run host es initialWorld)) = finished
          \<or> e = TimerFired \<and> awaitingDelay (run host es initialWorld)
             \<and> maxTurns (gameState (run host es initialWorld))
                 \<le> currentTurn (gameState (run host es initialWorld)))"
proof -
  have same: "eraseWorld (run (reflag f host) es initialWorld)
      = eraseWorld (run host es initialWorld)"
    by (rule eraseWorld_run) simp
  have "status (gameState (eraseWorld (run (reflag f host) es initialWorld)))
      = status (gameState (eraseWorld (run host es initialWorld)))"
    by (simp only: same)
  then have "status (gameState (run (reflag f host) es initialWorld))
      = status (gameState (run host es initialWorld))"
    by (simp add: eraseWorld_def eraseGameState_def)
  then show ?thesis
    using same finished_fire [OF consistent_reachable] by blast
qed

text \<open>C10 on the sample session: with every delivered turn flagged as the last one, the
  correct answer at the first stop still leaves the game playing.\<close>

theorem isGameOver_never_read_witness:
  "property (the (JSON_parse (reflag (\<lambda>s. Some (JBool True)) sampleHost) ellisPayload))
      ''isGameOver'' = JBool True
   \<and> status (gameState (run (reflag (\<lambda>s. Some (JBool True)) sampleHost)
        (toGrammar @ [OptionClick (JString ''Se exige''), TimerFired]) initialWorld)) = playing"
proof -
  have flag: "property (the (JSON_parse (reflag (\<lambda>s. Some (JBool True)) sampleHost) ellisPayload))
      ''isGameOver'' = JBool True"
    by (simp add: sampleParse_def ellisTurn_def asValue_def ellisTurnData_def)
  have "run sampleHost (toGrammar @ [OptionClick (JString ''Se exige''), TimerFired]) initialWorld
      = run sampleHost [OptionClick (JString ''Se exige''), TimerFired] grammarWorld"
    by (simp only: run_append grammarWorld_def)
  then have "status (gameState
      (run sampleHost (toGrammar @ [OptionClick (JString ''Se exige''), TimerFired]) initialWorld))
      = playing"
    by (simp add: grammarWorld_eq step_defs)
  then show ?thesis
    using flag
      isGameOver_never_read [of "\<lambda>s. Some (JBool True)" sampleHost
        "toGrammar @ [OptionClick (JString ''Se exige''), TimerFired]"]
    by simp
qed




text \<open>
  C1, as stated, fails on the sample session. When the request for the second turn is
  rejected, the world at rest has status \<open>playing\<close> and no active challenge, with no handler
  in flight. When the first request is rejected there is no placeholder either. When the
  first reply is the text \<open>null\<close>, which \<open>JSON.parse\<close> accepts, the status is \<open>playing\<close> and the
  active challenge is \<open>null\<close>, at rest. And when the first reply has no text, the parsed \<open>{}\<close>
  becomes the active challenge, not the placeholder.
\<close>

theorem rejected_next_turn_counterexample:
  "\<not> challengeIffActive (run sampleHost toStuck initialWorld)
   \<and> status (gameState (run sampleHost toStuck initialWorld)) = playing
   \<and> activeChallenge (gameState (run sampleHost toStuck initialWorld)) = JNull
   \<and> pending (run sampleHost toStuck initialWorld) = Idle
   \<and> \<not> isProcessing (run sampleHost toStuck initialWorld)
   \<and> activeChallenge (gameState
        (run sampleHost [Mount True, ChatSettled (Inl (Error ''network down''))] initialWorld))
       = JNull
   \<and> \<not> challengeIffActive (run sampleHost [Mount True, ChatSettled (Inr nullReply)] initialWorld)
   \<and> status (gameState (run sampleHost [Mount True, ChatSettled (Inr nullReply)] initialWorld))
       = playing
   \<and> activeChallenge (gameState
        (run sampleHost [Mount True, ChatSettled (Inr nullReply)] initialWorld)) = JNull
   \<and> pending (run sampleHost [Mount True, ChatSettled (Inr nullReply)] initialWorld) = Idle
   \<and> activeChallenge (gameState
        (run sampleHost [Mount True, ChatSettled (Inr noTextReply)] initialWorld)) = JObject []
   \<and> JObject [] \<noteq> errorTurn"
proof -
  let ?null = "run sampleHost [Mount True, ChatSettled (Inr nullReply)] initialWorld"
  have "run sampleHost toStuck initialWorld
      = run sampleHost
          [OptionClick (JString ''Se exige''), TimerFired, ChatSettled (Inl (Error ''network down''))]
          grammarWorld"
    by (simp only: toStuck_def run_append grammarWorld_def)
  then have stuck: "status (gameState (run sampleHost toStuck initialWorld)) = playing
   \<and> activeChallenge (gameState (run sampleHost toStuck initialWorld)) = JNull
   \<and> pending (run sampleHost toStuck initialWorld) = Idle
   \<and> \<not> isProcessing (run sampleHost toStuck initialWorld)"
    by (simp add: grammarWorld_eq step_defs sendMessage_settle_def)
  then have no1: "\<not> challengeIffActive (run sampleHost toStuck initialWorld)"
    by (simp add: challengeIffActive_def awaitingNextTurn_def)
  have failed: "activeChallenge (gameState
        (run sampleHost [Mount True, ChatSettled (Inl (Error ''network down''))] initialWorld))
       = JNull"
    by (simp add: initialWorld_def step_defs sendMessage_settle_def)
  have null: "status (gameState ?null) = playing \<and> activeChallenge (gameState ?null) = JNull
      \<and> pending ?null = Idle"
    by (simp add: initialWorld_def startQuest_def startQuest_resume_def sendMessage_call_def
        nullReply_settle Let_def)
  then have no2: "\<not> challengeIffActive ?null"
    by (simp add: challengeIffActive_def awaitingNextTurn_def)
  have empty: "activeChallenge (gameState
        (run sampleHost [Mount True, ChatSettled (Inr noTextReply)] initialWorld)) = JObject []"
    using emptyTurnWorld_eq by (simp add: emptyTurnWorld_def)
  have differ: "JObject [] \<noteq> errorTurn"
    by (simp add: errorTurn_def asValue_def)
  show ?thesis
    using no1 stuck failed no2 null empty differ by blast
qed

text \<open>
  C1, amended. When the chat request of the initial load or of a next turn is answered and
  \<open>JSON.parse\<close> rejects the cleaned text, the placeholder turn (location \<open>Connection Error\<close>,
  the single option \<open>Reload\<close>, \<open>isGameOver\<close> false) becomes the active challenge and the
  status is \<open>playing\<close>. When \<open>JSON.parse\<close> accepts the cleaned text, the value it returns
  becomes the active challenge without a check, whether or not it is a challenge. When the
  request of the initial load is rejected, the status is \<open>error\<close> and there is no active
  challenge; when the request of a next turn is rejected, the status stays \<open>playing\<close> and
  there is no active challenge. In every world reached from the initial one, an active
  challenge other than \<open>null\<close> implies the status \<open>playing\<close>. In every world reached by
  events among which no request for a next turn is rejected and no awaited reply parses to
  \<open>null\<close>, the active challenge is not \<open>null\<close> if and only if the status is \<open>playing\<close> and the
  controller is not between a correct answer and the next turn; if moreover no awaited reply
  parses to another value that is not truthy, the same holds of the active challenge being
  truthy, which is what the guards of the handlers and the view test.
\<close>

theorem placeholder_on_unparseable_reply:
  fixes host es
  defines "w \<equiv> run host es initialWorld"
  shows "(activeChallenge (gameState w) \<noteq> JNull \<longrightarrow> status (gameState w) = playing)
     \<and> (\<not> nextTurnRejected host es initialWorld \<and> \<not> nullTurnDelivered host es initialWorld
          \<longrightarrow> challengeIffActive w)
     \<and> (\<not> nextTurnRejected host es initialWorld \<and> \<not> falsyTurnDelivered host es initialWorld
          \<longrightarrow> truthyIffActive w)
     \<and> (\<forall>result. awaitingReply w \<longrightarrow>
           JSON_parse host (cleanResponse (resultText result)) = None \<longrightarrow>
             status (gameState (fire host (ChatSettled (Inr result)) w)) = playing
             \<and> activeChallenge (gameState (fire host (ChatSettled (Inr result)) w)) = errorTurn)
     \<and> (\<forall>result v. awaitingReply w \<longrightarrow>
           JSON_parse host (cleanResponse (resultText result)) = Some v \<longrightarrow>
             status (gameState (fire host (ChatSettled (Inr result)) w)) = playing
             \<and> activeChallenge (gameState (fire host (ChatSettled (Inr result)) w)) = v)
     \<and> (\<forall>err. pending w = StartQuest_sendMessage \<longrightarrow>
           status (gameState (fire host (ChatSettled (Inl err)) w)) = error
           \<and> activeChallenge (gameState (fire host (ChatSettled (Inl err)) w)) = JNull)
     \<and> (\<forall>err. pending w = OptionSelect_sendMessage \<longrightarrow>
           status (gameState (fire host (ChatSettled (Inl err)) w)) = playing
           \<and> activeChallenge (gameState (fire host (ChatSettled (Inl err)) w)) = JNull
           \<and> pending (fire host (ChatSettled (Inl err)) w) = Idle)
     \<and> errorTurn = asValue errorTurnData
     \<and> locationName errorTurnData = ''Connection Error'' \<and> options errorTurnData = [''Reload'']
     \<and> correctAnswer errorTurnData = ''Reload'' \<and> isGameOver errorTurnData = Some False
     \<and> truthy errorTurn"
proof -
  have c: "consistent w"
    unfolding w_def by (rule consistent_reachable)
  have only: "activeChallenge (gameState w) \<noteq> JNull \<longrightarrow> status (gameState w) = playing"
    using c by (simp add: active_only_playing)
  have "challengeIffActive initialWorld"
    by (simp add: challengeIffActive_def awaitingNextTurn_def initialWorld_def)
  then have iff: "\<not> nextTurnRejected host es initialWorld
      \<and> \<not> nullTurnDelivered host es initialWorld \<longrightarrow> challengeIffActive w"
    unfolding w_def using consistent_initial by (simp add: challengeIffActive_run)
  have "truthyIffActive initialWorld"
    by (simp add: truthyIffActive_def awaitingNextTurn_def initialWorld_def)
  then have shown: "\<not> nextTurnRejected host es initialWorld
      \<and> \<not> falsyTurnDelivered host es initialWorld \<longrightarrow> truthyIffActive w"
    unfolding w_def using consistent_initial by (simp add: truthyIffActive_run)
  have placeholder: "\<forall>result. awaitingReply w \<longrightarrow>
      JSON_parse host (cleanResponse (resultText result)) = None \<longrightarrow>
        status (gameState (fire host (ChatSettled (Inr result)) w)) = playing
        \<and> activeChallenge (gameState (fire host (ChatSettled (Inr result)) w)) = errorTurn"
    using c
    by (auto simp: consistent_def awaitingReply_def startQuest_resume_def
        handleOptionSelect_resume_def sendMessage_settle_def Let_def split: Pending.splits)
  have installed: "\<forall>result v. awaitingReply w \<longrightarrow>
      JSON_parse host (cleanResponse (resultText result)) = Some v \<longrightarrow>
        status (gameState (fire host (ChatSettled (Inr result)) w)) = playing
        \<and> activeChallenge (gameState (fire host (ChatSettled (Inr result)) w)) = v"
    using c
    by (auto simp: consistent_def awaitingReply_def startQuest_resume_def
        handleOptionSelect_resume_def sendMessage_settle_def Let_def split: Pending.splits)
  have failed: "\<forall>err. pending w = StartQuest_sendMessage \<longrightarrow>
      status (gameState (fire host (ChatSettled (Inl err)) w)) = error
      \<and> activeChallenge (gameState (fire host (ChatSettled (Inl err)) w)) = JNull"
    using c
    by (auto simp: consistent_def startQuest_resume_def sendMessage_settle_def Let_def)
  have stuck: "\<forall>err. pending w = OptionSelect_sendMessage \<longrightarrow>
      status (gameState (fire host (ChatSettled (Inl err)) w)) = playing
      \<and> activeChallenge (gameState (fire host (ChatSettled (Inl err)) w)) = JNull
      \<and> pending (fire host (ChatSettled (Inl err)) w) = Idle"
    using c
    by (auto simp: consistent_def handleOptionSelect_resume_def sendMessage_settle_def Let_def)
  have fields: "errorTurn = asValue errorTurnData
     \<and> locationName errorTurnData = ''Connection Error'' \<and> options errorTurnData = [''Reload'']
     \<and> correctAnswer errorTurnData = ''Reload'' \<and> isGameOver errorTurnData = Some False
     \<and> truthy errorTurn"
    by (simp add: errorTurn_def errorTurnData_def asValue_truthy)
  show ?thesis
    using only iff shown placeholder installed failed stuck fields by blast
qed

text \<open>C1, amended, on the sample session: the reply to the request for the second turn is
  prose, and the placeholder becomes the active challenge.\<close>

theorem placeholder_on_unparseable_reply_witness:
  "\<not> nextTurnRejected sampleHost
       (toGrammar @ [OptionClick (JString ''Se exige''), TimerFired]) initialWorld
   \<and> \<not> nullTurnDelivered sampleHost
       (toGrammar @ [OptionClick (JString ''Se exige''), TimerFired]) initialWorld
   \<and> \<not> falsyTurnDelivered sampleHost
       (toGrammar @ [OptionClick (JString ''Se exige''), TimerFired]) initialWorld
   \<and> awaitingReply
       (run sampleHost (toGrammar @ [OptionClick (JString ''Se exige''), TimerFired]) initialWorld)
   \<and> pending
       (run sampleHost (toGrammar @ [OptionClick (JString ''Se exige''), TimerFired]) initialWorld)
       = OptionSelect_sendMessage
   \<and> JSON_parse sampleHost (cleanResponse (resultText proseReply)) = None
   \<and> JSON_parse sampleHost (cleanResponse (resultText ellisReply)) = Some ellisTurn
   \<and> challengeIffActive
       (run sampleHost (toGrammar @ [OptionClick (JString ''Se exige''), TimerFired]) initialWorld)
   \<and> truthyIffActive
       (run sampleHost (toGrammar @ [OptionClick (JString ''Se exige''), TimerFired]) initialWorld)
   \<and> status (gameState (fire sampleHost (ChatSettled (Inr proseReply))
        (run sampleHost (toGrammar @ [OptionClick (JString ''Se exige''), TimerFired]) initialWorld)))
       = playing
   \<and> activeChallenge (gameState (fire sampleHost (ChatSettled (Inr proseReply))
        (run sampleHost (toGrammar @ [OptionClick (JString ''Se exige''), TimerFired]) initialWorld)))
       = errorTurn
   \<and> activeChallenge (gameState (fire sampleHost (ChatSettled (Inr ellisReply))
        (run sampleHost (toGrammar @ [OptionClick (JString ''Se exige''), TimerFired]) initialWorld)))
       = ellisTurn
   \<and> activeChallenge (gameState (fire sampleHost (ChatSettled (Inl (Error ''network down'')))
        (run sampleHost (toGrammar @ [OptionClick (JString ''Se exige''), TimerFired]) initialWorld)))
       = JNull"
proof -
  let ?es = "toGrammar @ [OptionClick (JString ''Se exige''), TimerFired]"
  have parsed: "JSON_parse sampleHost (cleanResponse (resultText ellisReply)) = Some ellisTurn"
    by (simp add: ellisReply_clean sampleParse_def)
  have h1: "\<not> nextTurnRejected sampleHost ?es initialWorld"
    by (simp add: toGrammar_def)
  have h2: "\<not> nullTurnDelivered sampleHost ?es initialWorld"
    using parsed by (simp add: toGrammar_def parsesNull_def ellisTurn_fields)
  have h3: "\<not> falsyTurnDelivered sampleHost ?es initialWorld"
    using parsed by (simp add: toGrammar_def parsesFalsy_def ellisTurn_fields)
  have "run sampleHost ?es initialWorld
      = run sampleHost [OptionClick (JString ''Se exige''), TimerFired] grammarWorld"
    by (simp only: run_append grammarWorld_def)
  then have p: "pending (run sampleHost ?es initialWorld) = OptionSelect_sendMessage"
    by (simp add: grammarWorld_eq step_defs)
  then have a: "awaitingReply (run sampleHost ?es initialWorld)"
    by (simp add: awaitingReply_def)
  have n: "JSON_parse sampleHost (cleanResponse (resultText proseReply)) = None"
    using proseReply_settle by simp
  note c = placeholder_on_unparseable_reply [of sampleHost ?es]
  show ?thesis
    using h1 h2 h3 p a n parsed c by blast
qed

end
